theory Spec2Isabelle
  imports Main "HOL-Library.Word" "HOL-Library.Monad_Syntax"
begin

section \<open>Values and interned strings\<close>

text \<open>
  An \<open>ObjString*\<close> is modelled by the record of the (immutable) string object it points
  to together with its address; two pointers are equal when the addresses are
  (\<open>str_addr\<close>). The hash is the field \<open>hash\<close> of the object (a \<open>uint32_t\<close>).
\<close>

record ObjString =
  str_addr :: nat
  chars :: string
  hash :: "32 word"

text \<open>Native functions are C function pointers; the three registered by \<open>initVM\<close>.\<close>

datatype NativeFn = clockNative | inputNative | numNative

text \<open>
  The object a \<open>Value\<close> of type \<open>VAL_OBJ\<close> points to. Functions, closures and upvalues
  are referred to by their address in the heap of the virtual machine.
\<close>

datatype Obj =
    OBJ_STRING ObjString
  | OBJ_FUNCTION nat
  | OBJ_NATIVE NativeFn
  | OBJ_CLOSURE nat
  | OBJ_UPVALUE nat

text \<open>
  The tagged union \<open>Value\<close>. The type \<open>'d\<close> stands for C's \<open>double\<close>; its arithmetic
  is a parameter of the virtual machine.
\<close>

datatype 'd Value = NIL_VAL | BOOL_VAL bool | NUMBER_VAL 'd | OBJ_VAL Obj

fun IS_NIL :: "'d Value \<Rightarrow> bool" where
  "IS_NIL NIL_VAL = True"
| "IS_NIL _ = False"

fun IS_NUMBER :: "'d Value \<Rightarrow> bool" where
  "IS_NUMBER (NUMBER_VAL _) = True"
| "IS_NUMBER _ = False"

fun IS_STRING :: "'d Value \<Rightarrow> bool" where
  "IS_STRING (OBJ_VAL (OBJ_STRING _)) = True"
| "IS_STRING _ = False"


section \<open>Hash tables\<close>

text \<open>An entry: \<open>key = None\<close> is the NULL key.\<close>

record 'd Entry =
  key :: "ObjString option"
  val :: "'d Value"

record 'd Table =
  count :: int
  capacity :: int
  entries :: "'d Entry list"

definition initTable :: "'d Table" where
  "initTable = \<lparr>count = 0, capacity = 0, entries = []\<rparr>"

text \<open>
  Modelled from the spec: the macro \<open>GROW_CAPACITY\<close> of memory.h, which is not among the
  sources (the tables and chunks grow geometrically, starting at 8 and doubling).
\<close>

definition GROW_CAPACITY :: "int \<Rightarrow> int" where
  "GROW_CAPACITY c = (if c < 8 then 8 else c * 2)"

text \<open>
  The probe loop of \<open>findEntry\<close>. It has no exit but its two \<open>return\<close>s, so it is a partial
  function: \<open>None\<close> means that no slot is returned. The result is the index of the entry
  the C function returns a pointer to.
\<close>

partial_function (option) findEntry_loop ::
  "'d Entry list \<Rightarrow> int \<Rightarrow> ObjString \<Rightarrow> 32 word \<Rightarrow> nat option \<Rightarrow> nat option" where
  "findEntry_loop es cap k index tombstone =
     (let entry = es ! unat index in
      case key entry of
        None \<Rightarrow>
          if IS_NIL (val entry)
          then Some (case tombstone of Some t \<Rightarrow> t | None \<Rightarrow> unat index)
          else findEntry_loop es cap k ((index + 1) mod word_of_int cap)
                 (case tombstone of None \<Rightarrow> Some (unat index) | Some t \<Rightarrow> Some t)
      | Some k' \<Rightarrow>
          if str_addr k' = str_addr k then Some (unat index)
          else findEntry_loop es cap k ((index + 1) mod word_of_int cap) tombstone)"

declare findEntry_loop.simps [code]

text \<open>
  \<open>findEntry\<close>: the first probe is at \<open>key->hash % capacity\<close>. With capacity 0 the
  modulo is a division by zero, which returns no slot either.
\<close>

definition findEntry :: "'d Entry list \<Rightarrow> int \<Rightarrow> ObjString \<Rightarrow> nat option" where
  "findEntry es cap k =
     (if cap \<le> 0 then None
      else findEntry_loop es cap k (hash k mod word_of_int cap) None)"

text \<open>
  The second loop of \<open>adjustCapacity\<close>, over the indices of the old array. The destination
  entry receives the key; the assignment \<open>dest->value = dest->value\<close> leaves its value as
  it is.
\<close>

fun adjustCapacity_loop ::
  "'d Entry list \<Rightarrow> nat list \<Rightarrow> 'd Entry list \<Rightarrow> int \<Rightarrow> 'd Entry list option" where
  "adjustCapacity_loop old [] es cap = Some es"
| "adjustCapacity_loop old (i # is) es cap =
     (let entry = old ! i in
      case key entry of
        None \<Rightarrow> adjustCapacity_loop old is es cap
      | Some k \<Rightarrow>
          (case findEntry es cap k of
             None \<Rightarrow> None
           | Some d \<Rightarrow>
               adjustCapacity_loop old is
                 (es[d := (es ! d)\<lparr>key := key entry, val := val (es ! d)\<rparr>]) cap))"

definition adjustCapacity :: "'d Table \<Rightarrow> int \<Rightarrow> 'd Table option" where
  "adjustCapacity t cap =
     (let es = replicate (nat cap) \<lparr>key = None, val = NIL_VAL\<rparr>;
          t1 = t\<lparr>count := 0\<rparr>
      in case adjustCapacity_loop (entries t1) [0..<nat (capacity t1)] es cap of
           None \<Rightarrow> None
         | Some es' \<Rightarrow> Some (t1\<lparr>entries := es', capacity := cap\<rparr>))"

text \<open>
  \<open>tableSet\<close>. The test \<open>count + 1 > capacity * 0.75\<close> is on doubles in C; on integers it
  is \<open>4 * (count + 1) > 3 * capacity\<close>. The result is the returned \<open>isNewKey\<close> and the
  table.
\<close>

definition tableSet :: "'d Table \<Rightarrow> ObjString \<Rightarrow> 'd Value \<Rightarrow> (bool \<times> 'd Table) option" where
  "tableSet t k v =
     do {
       t1 \<leftarrow> (if 4 * (count t + 1) > 3 * capacity t
              then adjustCapacity t (GROW_CAPACITY (capacity t))
              else Some t);
       e \<leftarrow> findEntry (entries t1) (capacity t1) k;
       let entry = entries t1 ! e;
           isNewKey = (key entry = None);
           t2 = (if isNewKey \<and> IS_NIL (val entry) then t1\<lparr>count := count t1 + 1\<rparr> else t1)
       in Some (isNewKey, t2\<lparr>entries := (entries t2)[e := \<lparr>key = Some k, val = v\<rparr>]\<rparr>)
     }"

text \<open>\<open>tableDelete\<close>: the tombstone is a NULL key with the value \<open>true\<close>.\<close>

definition tableDelete :: "'d Table \<Rightarrow> ObjString \<Rightarrow> (bool \<times> 'd Table) option" where
  "tableDelete t k =
     (if count t = 0 then Some (False, t)
      else do {
        e \<leftarrow> findEntry (entries t) (capacity t) k;
        if key (entries t ! e) = None then Some (False, t)
        else Some (True, t\<lparr>entries := (entries t)[e := \<lparr>key = None, val = BOOL_VAL True\<rparr>]\<rparr>)
      })"

text \<open>
  \<open>tableGet\<close>: \<open>Some None\<close> is the result \<open>false\<close> (a miss), \<open>Some (Some v)\<close> the result
  \<open>true\<close> with \<open>v\<close> stored through the out-parameter.
\<close>

definition tableGet :: "'d Table \<Rightarrow> ObjString \<Rightarrow> 'd Value option option" where
  "tableGet t k =
     (if count t = 0 then Some None
      else do {
        e \<leftarrow> findEntry (entries t) (capacity t) k;
        if key (entries t ! e) = None then Some None
        else Some (Some (val (entries t ! e)))
      })"

text \<open>A string object at address \<open>n\<close> with hash \<open>n\<close>, for concrete tables.\<close>

definition mkString :: "nat \<Rightarrow> string \<Rightarrow> ObjString" where
  "mkString n s = \<lparr>str_addr = n, chars = s, hash = of_nat n\<rparr>"

text \<open>Storing a list of keys and values in turn, from the left.\<close>

fun tableSetAll :: "'d Table \<Rightarrow> (ObjString \<times> 'd Value) list \<Rightarrow> 'd Table option" where
  "tableSetAll t [] = Some t"
| "tableSetAll t ((k, v) # kvs) =
     (case tableSet t k v of None \<Rightarrow> None | Some (b, t') \<Rightarrow> tableSetAll t' kvs)"


section \<open>Chunks and opcodes\<close>

text \<open>
  Modelled from the spec: the enumeration \<open>OpCode\<close> of chunk.h (the chunk.h among the
  sources is an earlier revision that declares \<open>OP_RETURN\<close> only). The opcodes are those
  the compiler emits and \<open>run\<close> dispatches on, numbered from 0 in the order of the
  \<open>switch\<close> of \<open>run\<close>, which is the order of the opcode table of the spec.
\<close>

datatype OpCode =
    OP_CONSTANT | OP_NIL | OP_TRUE | OP_FALSE | OP_POP
  | OP_GET_LOCAL | OP_SET_LOCAL | OP_GET_GLOBAL | OP_DEFINE_GLOBAL | OP_SET_GLOBAL
  | OP_GET_UPVALUE | OP_SET_UPVALUE
  | OP_EQUAL | OP_GREATER | OP_LESS
  | OP_ADD | OP_SUBTRACT | OP_MULTIPLY | OP_DIVIDE | OP_INT_DIVIDE | OP_MODULUS
  | OP_NOT | OP_NEGATE | OP_PRINT
  | OP_JUMP | OP_JUMP_IF_FALSE | OP_LOOP
  | OP_CALL | OP_CLOSURE | OP_CLOSE_UPVALUE | OP_RETURN

definition opcodes :: "OpCode list" where
  "opcodes =
     [OP_CONSTANT, OP_NIL, OP_TRUE, OP_FALSE, OP_POP,
      OP_GET_LOCAL, OP_SET_LOCAL, OP_GET_GLOBAL, OP_DEFINE_GLOBAL, OP_SET_GLOBAL,
      OP_GET_UPVALUE, OP_SET_UPVALUE,
      OP_EQUAL, OP_GREATER, OP_LESS,
      OP_ADD, OP_SUBTRACT, OP_MULTIPLY, OP_DIVIDE, OP_INT_DIVIDE, OP_MODULUS,
      OP_NOT, OP_NEGATE, OP_PRINT,
      OP_JUMP, OP_JUMP_IF_FALSE, OP_LOOP,
      OP_CALL, OP_CLOSURE, OP_CLOSE_UPVALUE, OP_RETURN]"

fun byte_of :: "OpCode \<Rightarrow> 8 word" where
  "byte_of OP_CONSTANT = 0"
| "byte_of OP_NIL = 1"
| "byte_of OP_TRUE = 2"
| "byte_of OP_FALSE = 3"
| "byte_of OP_POP = 4"
| "byte_of OP_GET_LOCAL = 5"
| "byte_of OP_SET_LOCAL = 6"
| "byte_of OP_GET_GLOBAL = 7"
| "byte_of OP_DEFINE_GLOBAL = 8"
| "byte_of OP_SET_GLOBAL = 9"
| "byte_of OP_GET_UPVALUE = 10"
| "byte_of OP_SET_UPVALUE = 11"
| "byte_of OP_EQUAL = 12"
| "byte_of OP_GREATER = 13"
| "byte_of OP_LESS = 14"
| "byte_of OP_ADD = 15"
| "byte_of OP_SUBTRACT = 16"
| "byte_of OP_MULTIPLY = 17"
| "byte_of OP_DIVIDE = 18"
| "byte_of OP_INT_DIVIDE = 19"
| "byte_of OP_MODULUS = 20"
| "byte_of OP_NOT = 21"
| "byte_of OP_NEGATE = 22"
| "byte_of OP_PRINT = 23"
| "byte_of OP_JUMP = 24"
| "byte_of OP_JUMP_IF_FALSE = 25"
| "byte_of OP_LOOP = 26"
| "byte_of OP_CALL = 27"
| "byte_of OP_CLOSURE = 28"
| "byte_of OP_CLOSE_UPVALUE = 29"
| "byte_of OP_RETURN = 30"

text \<open>The opcode a byte is dispatched to by a \<open>switch\<close>, if any.\<close>

definition opcode_of :: "8 word \<Rightarrow> OpCode option" where
  "opcode_of b = find (\<lambda>op. byte_of op = b) opcodes"

text \<open>
  Modelled from the spec: the chunk with its line table and constant pool, and the
  three-argument \<open>writeChunk\<close> and \<open>addConstant\<close> that compiler.c calls (the chunk.c among
  the sources is an earlier revision without lines and constants). \<open>write\<close> appends to
  both arrays in lock-step; \<open>addConstant\<close> appends and returns the index. The growth of
  the arrays' capacities is memory management and not modelled.
\<close>

record 'd Chunk =
  code :: "8 word list"
  lines :: "int list"
  constants :: "'d Value list"

definition initChunk :: "'d Chunk" where
  "initChunk = \<lparr>code = [], lines = [], constants = []\<rparr>"

definition writeChunk :: "'d Chunk \<Rightarrow> 8 word \<Rightarrow> int \<Rightarrow> 'd Chunk" where
  "writeChunk c b l = c\<lparr>code := code c @ [b], lines := lines c @ [l]\<rparr>"

definition addConstant :: "'d Chunk \<Rightarrow> 'd Value \<Rightarrow> int \<times> 'd Chunk" where
  "addConstant c v = (int (length (constants c)), c\<lparr>constants := constants c @ [v]\<rparr>)"


section \<open>The compiler\<close>

subsection \<open>Tokens, parser state and error reports\<close>

text \<open>
  The token types are those the table \<open>rules\<close> is indexed by (scanner.h is not among the
  sources). A token's \<open>start\<close> and \<open>length\<close> are modelled by its lexeme.
\<close>

datatype TokenType =
    TOKEN_LEFT_PAREN | TOKEN_RIGHT_PAREN | TOKEN_LEFT_BRACE | TOKEN_RIGHT_BRACE
  | TOKEN_COMMA | TOKEN_DOT | TOKEN_MINUS | TOKEN_PLUS | TOKEN_SEMICOLON
  | TOKEN_SLASH | TOKEN_STAR
  | TOKEN_BANG | TOKEN_BANG_EQUAL | TOKEN_EQUAL | TOKEN_EQUAL_EQUAL
  | TOKEN_GREATER | TOKEN_GREATER_EQUAL | TOKEN_LESS | TOKEN_LESS_EQUAL
  | TOKEN_IDENTIFIER | TOKEN_STRING | TOKEN_NUMBER
  | TOKEN_AND | TOKEN_CLASS | TOKEN_ELSE | TOKEN_FALSE | TOKEN_FOR | TOKEN_FUN
  | TOKEN_IF | TOKEN_NIL | TOKEN_OR | TOKEN_PRINT | TOKEN_RETURN | TOKEN_SUPER
  | TOKEN_THIS | TOKEN_TRUE | TOKEN_VAR | TOKEN_WHILE
  | TOKEN_ERROR | TOKEN_EOF

record Token =
  ttype :: TokenType
  lexeme :: string
  line :: int

text \<open>
  The globals of compiler.c (\<open>parser\<close>, \<open>compilingChunk\<close>) together with what the
  compiler reads and writes outside: the tokens the scanner has yet to deliver
  (\<open>pending\<close>; once they are used up \<open>scanToken\<close> delivers \<open>TOKEN_EOF\<close> with the line
  \<open>eofLine\<close>), the text written to stderr, and the pool of interned strings.
\<close>

record 'd Parser =
  current :: Token
  previous :: Token
  hadError :: bool
  panicMode :: bool
  compilingChunk :: "'d Chunk"
  pending :: "Token list"
  eofLine :: int
  stderr :: string
  pool :: "ObjString list"

fun show_nat :: "nat \<Rightarrow> string" where
  "show_nat n =
     (if n < 10 then [char_of (48 + n)]
      else show_nat (n div 10) @ [char_of (48 + n mod 10)])"

declare show_nat.simps [simp del]

text \<open>The conversion \<open>%d\<close> of \<open>printf\<close>.\<close>

definition show_int :: "int \<Rightarrow> string" where
  "show_int i = (if i < 0 then CHR ''-'' # show_nat (nat (- i)) else show_nat (nat i))"

definition errorAt :: "Token \<Rightarrow> string \<Rightarrow> 'd Parser \<Rightarrow> 'd Parser" where
  "errorAt token message p =
     (if panicMode p then p
      else p\<lparr>panicMode := True,
             stderr := stderr p @ ''[line '' @ show_int (line token) @ ''] Error''
               @ (if ttype token = TOKEN_EOF then '' at end''
                  else if ttype token = TOKEN_ERROR then []
                  else '' at '' @ [CHR 0x27] @ lexeme token @ [CHR 0x27])
               @ '': '' @ message @ [CHR 0x0A],
             hadError := True\<rparr>)"

definition error :: "string \<Rightarrow> 'd Parser \<Rightarrow> 'd Parser" where
  "error message p = errorAt (previous p) message p"

definition errorAtCurrent :: "string \<Rightarrow> 'd Parser \<Rightarrow> 'd Parser" where
  "errorAtCurrent message p = errorAt (current p) message p"

text \<open>
  The loop of \<open>advance\<close>: tokens are scanned until one is not \<open>TOKEN_ERROR\<close>; an error
  token is reported with its lexeme as the message.
\<close>

fun advance_loop :: "Token list \<Rightarrow> 'd Parser \<Rightarrow> 'd Parser" where
  "advance_loop [] p =
     p\<lparr>current := \<lparr>ttype = TOKEN_EOF, lexeme = [], line = eofLine p\<rparr>, pending := []\<rparr>"
| "advance_loop (t # ts) p =
     (let p1 = p\<lparr>current := t, pending := ts\<rparr> in
      if ttype t \<noteq> TOKEN_ERROR then p1
      else advance_loop ts (errorAtCurrent (lexeme t) p1))"

definition advance :: "'d Parser \<Rightarrow> 'd Parser" where
  "advance p = advance_loop (pending p) (p\<lparr>previous := current p\<rparr>)"

definition consume :: "TokenType \<Rightarrow> string \<Rightarrow> 'd Parser \<Rightarrow> 'd Parser" where
  "consume t message p =
     (if ttype (current p) = t then advance p else errorAtCurrent message p)"

definition check :: "TokenType \<Rightarrow> 'd Parser \<Rightarrow> bool" where
  "check t p = (ttype (current p) = t)"

definition match :: "TokenType \<Rightarrow> 'd Parser \<Rightarrow> bool \<times> 'd Parser" where
  "match t p = (if \<not> check t p then (False, p) else (True, advance p))"

subsection \<open>Emitting bytecode\<close>

definition emitByte :: "8 word \<Rightarrow> 'd Parser \<Rightarrow> 'd Parser" where
  "emitByte b p = p\<lparr>compilingChunk := writeChunk (compilingChunk p) b (line (previous p))\<rparr>"

definition emitBytes :: "8 word \<Rightarrow> 8 word \<Rightarrow> 'd Parser \<Rightarrow> 'd Parser" where
  "emitBytes b1 b2 p = emitByte b2 (emitByte b1 p)"

definition emitReturn :: "'d Parser \<Rightarrow> 'd Parser" where
  "emitReturn p = emitByte (byte_of OP_RETURN) p"

text \<open>\<open>UINT8_MAX\<close> is 255; the cast to \<open>uint8_t\<close> is \<open>word_of_int\<close>.\<close>

definition makeConstant :: "'d Value \<Rightarrow> 'd Parser \<Rightarrow> 8 word \<times> 'd Parser" where
  "makeConstant v p =
     (let (constant, c) = addConstant (compilingChunk p) v;
          p1 = p\<lparr>compilingChunk := c\<rparr>
      in if constant > 255 then (0, error ''Too many constants in one chunk.'' p1)
         else (word_of_int constant, p1))"

definition emitConstant :: "'d Value \<Rightarrow> 'd Parser \<Rightarrow> 'd Parser" where
  "emitConstant v p = (let (b, p1) = makeConstant v p in emitBytes (byte_of OP_CONSTANT) b p1)"

definition endCompiler :: "'d Parser \<Rightarrow> 'd Parser" where
  "endCompiler p = emitReturn p"

text \<open>
  Modelled from the spec: \<open>hashString\<close> and \<open>copyString\<close> of object.c, which is not among
  the sources. The hash is the 32-bit FNV-1a hash of the bytes; \<open>copyString\<close> returns the
  interned string of the given contents and allocates it when the pool has none.
\<close>

definition hashString :: "string \<Rightarrow> 32 word" where
  "hashString s = foldl (\<lambda>h c. (xor h (of_char c)) * 16777619) 2166136261 s"

definition copyString :: "string \<Rightarrow> ObjString list \<Rightarrow> ObjString \<times> ObjString list" where
  "copyString s ss =
     (case find (\<lambda>o'. chars o' = s) ss of
        Some o' \<Rightarrow> (o', ss)
      | None \<Rightarrow>
          (let o' = \<lparr>str_addr = length ss, chars = s, hash = hashString s\<rparr>
           in (o', ss @ [o'])))"

definition identifierConstant :: "Token \<Rightarrow> 'd Parser \<Rightarrow> 8 word \<times> 'd Parser" where
  "identifierConstant name p =
     (let (s, ss) = copyString (lexeme name) (pool p)
      in makeConstant (OBJ_VAL (OBJ_STRING s)) (p\<lparr>pool := ss\<rparr>))"

definition parseVariable :: "string \<Rightarrow> 'd Parser \<Rightarrow> 8 word \<times> 'd Parser" where
  "parseVariable errorMessage p =
     (let p1 = consume TOKEN_IDENTIFIER errorMessage p
      in identifierConstant (previous p1) p1)"

definition defineVariable :: "8 word \<Rightarrow> 'd Parser \<Rightarrow> 'd Parser" where
  "defineVariable global p = emitBytes (byte_of OP_DEFINE_GLOBAL) global p"

subsection \<open>The Pratt parser\<close>

text \<open>The enumeration \<open>Precedence\<close>; \<open>binary\<close> adds 1 to a precedence.\<close>

abbreviation (input) PREC_NONE :: nat where "PREC_NONE \<equiv> 0"
abbreviation (input) PREC_ASSIGNMENT :: nat where "PREC_ASSIGNMENT \<equiv> 1"
abbreviation (input) PREC_OR :: nat where "PREC_OR \<equiv> 2"
abbreviation (input) PREC_AND :: nat where "PREC_AND \<equiv> 3"
abbreviation (input) PREC_EQUALITY :: nat where "PREC_EQUALITY \<equiv> 4"
abbreviation (input) PREC_COMPARISON :: nat where "PREC_COMPARISON \<equiv> 5"
abbreviation (input) PREC_TERM :: nat where "PREC_TERM \<equiv> 6"
abbreviation (input) PREC_FACTOR :: nat where "PREC_FACTOR \<equiv> 7"
abbreviation (input) PREC_UNARY :: nat where "PREC_UNARY \<equiv> 8"
abbreviation (input) PREC_CALL :: nat where "PREC_CALL \<equiv> 9"
abbreviation (input) PREC_PRIMARY :: nat where "PREC_PRIMARY \<equiv> 10"

text \<open>The parse functions a \<open>ParseFn\<close> pointer of the table can point to.\<close>

datatype ParseFn = grouping | unary | binary | variable | string | number | literal

record ParseRule =
  prefix :: "ParseFn option"
  infix_rule :: "ParseFn option"
  precedence :: nat

definition rule :: "ParseFn option \<Rightarrow> ParseFn option \<Rightarrow> nat \<Rightarrow> ParseRule" where
  "rule f g n = \<lparr>prefix = f, infix_rule = g, precedence = n\<rparr>"

text \<open>The table \<open>rules\<close>, read through \<open>getRule\<close>.\<close>

fun getRule :: "TokenType \<Rightarrow> ParseRule" where
  "getRule TOKEN_LEFT_PAREN = rule (Some grouping) None PREC_NONE"
| "getRule TOKEN_RIGHT_PAREN = rule None None PREC_NONE"
| "getRule TOKEN_LEFT_BRACE = rule None None PREC_NONE"
| "getRule TOKEN_RIGHT_BRACE = rule None None PREC_NONE"
| "getRule TOKEN_COMMA = rule None None PREC_NONE"
| "getRule TOKEN_DOT = rule None None PREC_NONE"
| "getRule TOKEN_MINUS = rule (Some unary) (Some binary) PREC_TERM"
| "getRule TOKEN_PLUS = rule None (Some binary) PREC_TERM"
| "getRule TOKEN_SEMICOLON = rule None None PREC_NONE"
| "getRule TOKEN_SLASH = rule None (Some binary) PREC_FACTOR"
| "getRule TOKEN_STAR = rule None (Some binary) PREC_FACTOR"
| "getRule TOKEN_BANG = rule (Some unary) None PREC_NONE"
| "getRule TOKEN_BANG_EQUAL = rule None (Some binary) PREC_EQUALITY"
| "getRule TOKEN_EQUAL = rule None None PREC_NONE"
| "getRule TOKEN_EQUAL_EQUAL = rule None (Some binary) PREC_EQUALITY"
| "getRule TOKEN_GREATER = rule None (Some binary) PREC_COMPARISON"
| "getRule TOKEN_GREATER_EQUAL = rule None (Some binary) PREC_COMPARISON"
| "getRule TOKEN_LESS = rule None (Some binary) PREC_COMPARISON"
| "getRule TOKEN_LESS_EQUAL = rule None (Some binary) PREC_COMPARISON"
| "getRule TOKEN_IDENTIFIER = rule (Some variable) None PREC_NONE"
| "getRule TOKEN_STRING = rule (Some string) None PREC_NONE"
| "getRule TOKEN_NUMBER = rule (Some number) None PREC_NONE"
| "getRule TOKEN_AND = rule None None PREC_NONE"
| "getRule TOKEN_CLASS = rule None None PREC_NONE"
| "getRule TOKEN_ELSE = rule None None PREC_NONE"
| "getRule TOKEN_FALSE = rule (Some literal) None PREC_NONE"
| "getRule TOKEN_FOR = rule None None PREC_NONE"
| "getRule TOKEN_FUN = rule None None PREC_NONE"
| "getRule TOKEN_IF = rule None None PREC_NONE"
| "getRule TOKEN_NIL = rule (Some literal) None PREC_NONE"
| "getRule TOKEN_OR = rule None None PREC_NONE"
| "getRule TOKEN_PRINT = rule None None PREC_NONE"
| "getRule TOKEN_RETURN = rule None None PREC_NONE"
| "getRule TOKEN_SUPER = rule None None PREC_NONE"
| "getRule TOKEN_THIS = rule None None PREC_NONE"
| "getRule TOKEN_TRUE = rule (Some literal) None PREC_NONE"
| "getRule TOKEN_VAR = rule None None PREC_NONE"
| "getRule TOKEN_WHILE = rule None None PREC_NONE"
| "getRule TOKEN_ERROR = rule None None PREC_NONE"
| "getRule TOKEN_EOF = rule None None PREC_NONE"

text \<open>The \<open>switch\<close> of \<open>binary\<close> on the operator, after the right operand is compiled.\<close>

fun binary_emit :: "TokenType \<Rightarrow> 'd Parser \<Rightarrow> 'd Parser" where
  "binary_emit TOKEN_BANG_EQUAL p = emitBytes (byte_of OP_EQUAL) (byte_of OP_NOT) p"
| "binary_emit TOKEN_EQUAL_EQUAL p = emitByte (byte_of OP_EQUAL) p"
| "binary_emit TOKEN_GREATER p = emitByte (byte_of OP_GREATER) p"
| "binary_emit TOKEN_GREATER_EQUAL p = emitBytes (byte_of OP_LESS) (byte_of OP_NOT) p"
| "binary_emit TOKEN_LESS p = emitByte (byte_of OP_LESS) p"
| "binary_emit TOKEN_LESS_EQUAL p = emitBytes (byte_of OP_GREATER) (byte_of OP_NOT) p"
| "binary_emit TOKEN_PLUS p = emitByte (byte_of OP_ADD) p"
| "binary_emit TOKEN_MINUS p = emitByte (byte_of OP_SUBTRACT) p"
| "binary_emit TOKEN_STAR p = emitByte (byte_of OP_MULTIPLY) p"
| "binary_emit TOKEN_SLASH p = emitByte (byte_of OP_DIVIDE) p"
| "binary_emit _ p = p"

fun unary_emit :: "TokenType \<Rightarrow> 'd Parser \<Rightarrow> 'd Parser" where
  "unary_emit TOKEN_BANG p = emitByte (byte_of OP_NOT) p"
| "unary_emit TOKEN_MINUS p = emitByte (byte_of OP_NEGATE) p"
| "unary_emit _ p = p"

definition literal_fn :: "'d Parser \<Rightarrow> 'd Parser" where
  "literal_fn p =
     (case ttype (previous p) of
        TOKEN_FALSE \<Rightarrow> emitByte (byte_of OP_FALSE) p
      | TOKEN_NIL \<Rightarrow> emitByte (byte_of OP_NIL) p
      | TOKEN_TRUE \<Rightarrow> emitByte (byte_of OP_TRUE) p
      | _ \<Rightarrow> p)"

text \<open>
  \<open>number\<close>: the C function \<open>strtod\<close> is the parameter \<open>sd\<close>, applied to the lexeme of
  the token.
\<close>

definition number_fn :: "(string \<Rightarrow> 'd) \<Rightarrow> 'd Parser \<Rightarrow> 'd Parser" where
  "number_fn sd p = emitConstant (NUMBER_VAL (sd (lexeme (previous p)))) p"

text \<open>\<open>string\<close>: the lexeme without its first and its last character.\<close>

definition string_fn :: "'d Parser \<Rightarrow> 'd Parser" where
  "string_fn p =
     (let lx = lexeme (previous p);
          (s, ss) = copyString (take (nat (int (length lx) - 2)) (drop 1 lx)) (pool p)
      in emitConstant (OBJ_VAL (OBJ_STRING s)) (p\<lparr>pool := ss\<rparr>))"

definition namedVariable :: "Token \<Rightarrow> 'd Parser \<Rightarrow> 'd Parser" where
  "namedVariable name p =
     (let (arg, p1) = identifierConstant name p
      in emitBytes (byte_of OP_GET_GLOBAL) arg p1)"

definition variable_fn :: "'d Parser \<Rightarrow> 'd Parser" where
  "variable_fn p = namedVariable (previous p) p"

text \<open>
  \<open>parsePrecedence\<close> and the parse functions that call it back (\<open>grouping\<close> through
  \<open>expression\<close>, \<open>unary\<close>, \<open>binary\<close>) are mutually recursive. The first argument after
  \<open>sd\<close> is fuel: each call passes one unit less to the calls it makes, and \<open>None\<close> is
  the result when the fuel is used up. \<open>infixLoop\<close> is the \<open>while\<close> loop of
  \<open>parsePrecedence\<close>; calling an infix rule that is NULL has no result.
\<close>

fun parsePrecedence :: "(string \<Rightarrow> 'd) \<Rightarrow> nat \<Rightarrow> nat \<Rightarrow> 'd Parser \<Rightarrow> 'd Parser option"
  and infixLoop :: "(string \<Rightarrow> 'd) \<Rightarrow> nat \<Rightarrow> nat \<Rightarrow> 'd Parser \<Rightarrow> 'd Parser option"
  and callParseFn :: "(string \<Rightarrow> 'd) \<Rightarrow> nat \<Rightarrow> ParseFn \<Rightarrow> 'd Parser \<Rightarrow> 'd Parser option"
where
  "parsePrecedence sd 0 prec p = None"
| "parsePrecedence sd (Suc n) prec p =
     (let p1 = advance p in
      case prefix (getRule (ttype (previous p1))) of
        None \<Rightarrow> Some (error ''Expect expression.'' p1)
      | Some prefixRule \<Rightarrow>
          (case callParseFn sd n prefixRule p1 of
             None \<Rightarrow> None
           | Some p2 \<Rightarrow> infixLoop sd n prec p2))"
| "infixLoop sd 0 prec p = None"
| "infixLoop sd (Suc n) prec p =
     (if prec \<le> precedence (getRule (ttype (current p))) then
        (let p1 = advance p in
         case infix_rule (getRule (ttype (previous p1))) of
           None \<Rightarrow> None
         | Some infixRule \<Rightarrow>
             (case callParseFn sd n infixRule p1 of
                None \<Rightarrow> None
              | Some p2 \<Rightarrow> infixLoop sd n prec p2))
      else Some p)"
| "callParseFn sd n grouping p =
     (case parsePrecedence sd n PREC_ASSIGNMENT p of
        None \<Rightarrow> None
      | Some p1 \<Rightarrow> Some (consume TOKEN_RIGHT_PAREN ''Expect ')' after expression.'' p1))"
| "callParseFn sd n unary p =
     (let operatorType = ttype (previous p) in
      case parsePrecedence sd n PREC_UNARY p of
        None \<Rightarrow> None
      | Some p1 \<Rightarrow> Some (unary_emit operatorType p1))"
| "callParseFn sd n binary p =
     (let operatorType = ttype (previous p);
          r = getRule operatorType in
      case parsePrecedence sd n (precedence r + 1) p of
        None \<Rightarrow> None
      | Some p1 \<Rightarrow> Some (binary_emit operatorType p1))"
| "callParseFn sd n variable p = Some (variable_fn p)"
| "callParseFn sd n string p = Some (string_fn p)"
| "callParseFn sd n number p = Some (number_fn sd p)"
| "callParseFn sd n literal p = Some (literal_fn p)"

definition expression :: "(string \<Rightarrow> 'd) \<Rightarrow> nat \<Rightarrow> 'd Parser \<Rightarrow> 'd Parser option" where
  "expression sd n p = parsePrecedence sd n PREC_ASSIGNMENT p"

subsection \<open>Statements and declarations\<close>

definition varDecleration :: "(string \<Rightarrow> 'd) \<Rightarrow> nat \<Rightarrow> 'd Parser \<Rightarrow> 'd Parser option" where
  "varDecleration sd n p =
     (let (global, p1) = parseVariable ''Expect variable name.'' p;
          (m, p2) = match TOKEN_EQUAL p1
      in case (if m then expression sd n p2 else Some (emitByte (byte_of OP_NIL) p2)) of
           None \<Rightarrow> None
         | Some p3 \<Rightarrow>
             Some (defineVariable global
                     (consume TOKEN_SEMICOLON ''Expect ';' after variable decleration.'' p3)))"

definition expressionStatement :: "(string \<Rightarrow> 'd) \<Rightarrow> nat \<Rightarrow> 'd Parser \<Rightarrow> 'd Parser option" where
  "expressionStatement sd n p =
     (case expression sd n p of
        None \<Rightarrow> None
      | Some p1 \<Rightarrow>
          Some (emitByte (byte_of OP_POP)
                  (consume TOKEN_SEMICOLON ''Expect ';' after expression.'' p1)))"

definition printStatement :: "(string \<Rightarrow> 'd) \<Rightarrow> nat \<Rightarrow> 'd Parser \<Rightarrow> 'd Parser option" where
  "printStatement sd n p =
     (case expression sd n p of
        None \<Rightarrow> None
      | Some p1 \<Rightarrow>
          Some (emitByte (byte_of OP_PRINT)
                  (consume TOKEN_SEMICOLON ''Expect ';' after value.'' p1)))"

text \<open>The tokens at which \<open>synchronize\<close> stops skipping.\<close>

definition statement_start :: "TokenType \<Rightarrow> bool" where
  "statement_start t =
     (t \<in> {TOKEN_CLASS, TOKEN_FUN, TOKEN_VAR, TOKEN_FOR, TOKEN_IF, TOKEN_WHILE,
            TOKEN_PRINT, TOKEN_RETURN})"

text \<open>The loop of \<open>synchronize\<close>, with fuel as above.\<close>

fun synchronize_loop :: "nat \<Rightarrow> 'd Parser \<Rightarrow> 'd Parser option" where
  "synchronize_loop 0 p = None"
| "synchronize_loop (Suc n) p =
     (if ttype (current p) \<noteq> TOKEN_EOF then
        (if ttype (previous p) = TOKEN_SEMICOLON then Some p
         else if statement_start (ttype (current p)) then Some p
         else synchronize_loop n (advance p))
      else Some p)"

definition synchronize :: "nat \<Rightarrow> 'd Parser \<Rightarrow> 'd Parser option" where
  "synchronize n p = synchronize_loop n (p\<lparr>panicMode := False\<rparr>)"

definition statement :: "(string \<Rightarrow> 'd) \<Rightarrow> nat \<Rightarrow> 'd Parser \<Rightarrow> 'd Parser option" where
  "statement sd n p =
     (let (m, p1) = match TOKEN_PRINT p
      in if m then printStatement sd n p1 else expressionStatement sd n p1)"

definition decleration :: "(string \<Rightarrow> 'd) \<Rightarrow> nat \<Rightarrow> 'd Parser \<Rightarrow> 'd Parser option" where
  "decleration sd n p =
     (let (m, p1) = match TOKEN_VAR p
      in case (if m then varDecleration sd n p1 else statement sd n p1) of
           None \<Rightarrow> None
         | Some p2 \<Rightarrow> if panicMode p2 then synchronize n p2 else Some p2)"

text \<open>The loop of \<open>compile\<close>: declarations until \<open>TOKEN_EOF\<close> is matched.\<close>

fun compile_loop :: "(string \<Rightarrow> 'd) \<Rightarrow> nat \<Rightarrow> 'd Parser \<Rightarrow> 'd Parser option" where
  "compile_loop sd 0 p = None"
| "compile_loop sd (Suc n) p =
     (let (m, p1) = match TOKEN_EOF p
      in if m then Some p1
         else (case decleration sd n p1 of
                 None \<Rightarrow> None
               | Some p2 \<Rightarrow> compile_loop sd n p2))"

text \<open>
  \<open>compile\<close>. The source text enters through the scanner: \<open>initScanner\<close> is modelled by
  the tokens \<open>ts\<close> the scanner will deliver and the line \<open>l\<close> of its final \<open>TOKEN_EOF\<close>;
  \<open>chunk\<close> is the chunk of the caller. The state \<open>p\<close> holds the globals as they are before
  the call. The result is the returned flag together with the state, whose
  \<open>compilingChunk\<close> is the chunk the compiler has filled.
\<close>

definition compile ::
  "(string \<Rightarrow> 'd) \<Rightarrow> nat \<Rightarrow> Token list \<Rightarrow> int \<Rightarrow> 'd Chunk \<Rightarrow> 'd Parser \<Rightarrow> (bool \<times> 'd Parser) option"
where
  "compile sd n ts l chunk p =
     (let p1 = p\<lparr>pending := ts, eofLine := l, compilingChunk := chunk,
                 hadError := False, panicMode := False\<rparr>;
          p2 = advance p1
      in case compile_loop sd n p2 of
           None \<Rightarrow> None
         | Some p3 \<Rightarrow> (let p4 = endCompiler p3 in Some (\<not> hadError p4, p4)))"

text \<open>
  The globals of compiler.c at program start (static storage is zero-initialised; the
  token type with value 0 is \<open>TOKEN_LEFT_PAREN\<close>), with no string interned yet.
\<close>

definition Parser0 :: "'d Parser" where
  "Parser0 =
     \<lparr>current = \<lparr>ttype = TOKEN_LEFT_PAREN, lexeme = [], line = 0\<rparr>,
      previous = \<lparr>ttype = TOKEN_LEFT_PAREN, lexeme = [], line = 0\<rparr>,
      hadError = False, panicMode = False, compilingChunk = initChunk,
      pending = [], eofLine = 0, stderr = [], pool = []\<rparr>"

text \<open>A token of the given type and lexeme on line 1.\<close>

definition tok :: "TokenType \<Rightarrow> string \<Rightarrow> Token" where
  "tok t s = \<lparr>ttype = t, lexeme = s, line = 1\<rparr>"

subsection \<open>Auxiliary definitions for the statements about the compiler\<close>

text \<open>
  The number of tokens the parser can still advance over: those pending, and the current
  one unless it is the final \<open>TOKEN_EOF\<close>.
\<close>

definition rem_tokens :: "'d Parser \<Rightarrow> nat" where
  "rem_tokens p =
     length (pending p) + (if ttype (current p) = TOKEN_EOF \<and> pending p = [] then 0 else 1)"

text \<open>
  The binary operators and, in the words of the spec, the opcodes each is compiled to:
  \<open>+\<close> to OP_ADD, \<open>-\<close> to OP_SUBTRACT, \<open>*\<close> to OP_MULTIPLY, \<open>/\<close> to OP_DIVIDE, \<open>==\<close> to
  OP_EQUAL, \<open>!=\<close> to OP_EQUAL OP_NOT, \<open><\<close> to OP_LESS, \<open><=\<close> to OP_GREATER OP_NOT, \<open>>\<close>
  to OP_GREATER, \<open>>=\<close> to OP_LESS OP_NOT.
\<close>

definition binary_operators :: "TokenType list" where
  "binary_operators =
     [TOKEN_PLUS, TOKEN_MINUS, TOKEN_STAR, TOKEN_SLASH, TOKEN_EQUAL_EQUAL, TOKEN_BANG_EQUAL,
      TOKEN_LESS, TOKEN_LESS_EQUAL, TOKEN_GREATER, TOKEN_GREATER_EQUAL]"

fun binary_opcodes :: "TokenType \<Rightarrow> OpCode list" where
  "binary_opcodes TOKEN_PLUS = [OP_ADD]"
| "binary_opcodes TOKEN_MINUS = [OP_SUBTRACT]"
| "binary_opcodes TOKEN_STAR = [OP_MULTIPLY]"
| "binary_opcodes TOKEN_SLASH = [OP_DIVIDE]"
| "binary_opcodes TOKEN_EQUAL_EQUAL = [OP_EQUAL]"
| "binary_opcodes TOKEN_BANG_EQUAL = [OP_EQUAL, OP_NOT]"
| "binary_opcodes TOKEN_LESS = [OP_LESS]"
| "binary_opcodes TOKEN_LESS_EQUAL = [OP_GREATER, OP_NOT]"
| "binary_opcodes TOKEN_GREATER = [OP_GREATER]"
| "binary_opcodes TOKEN_GREATER_EQUAL = [OP_LESS, OP_NOT]"
| "binary_opcodes _ = []"

text \<open>
  For concrete programs: numbers are integers, and \<open>strtod\<close> reads a lexeme of decimal
  digits.
\<close>

definition decimal :: "string \<Rightarrow> int" where
  "decimal s = foldl (\<lambda>n c. 10 * n + (of_char c - 48)) 0 s"


section \<open>The virtual machine\<close>

subsection \<open>Heap objects and the state\<close>

text \<open>
  Modelled from the spec: the constants of vm.h and common.h, which are not among the
  sources. \<open>FRAMES_MAX\<close> is 64, \<open>UINT8_COUNT\<close> is 256 and \<open>STACK_MAX\<close> is their product.
\<close>

definition FRAMES_MAX :: int where "FRAMES_MAX = 64"

text \<open>
  The objects of object.h. Pointers to functions, closures and upvalues are addresses:
  indices into the lists of the objects allocated so far (objects are never freed while
  the machine runs). The \<open>location\<close> of an upvalue points either at a slot of the value
  stack or at the field \<open>closed\<close> of the upvalue itself.
\<close>

record 'd ObjFunction =
  arity :: int
  upvalueCount :: int
  chunk :: "'d Chunk"
  name :: "ObjString option"

record ObjClosure =
  closure_function :: nat
  upvalues :: "nat option list"
  closure_upvalueCount :: int

datatype Location = StackSlot int | ClosedSlot

record 'd ObjUpvalue =
  location :: Location
  closed :: "'d Value"
  next_upvalue :: "nat option"

record CallFrame =
  closure :: nat
  ip :: int
  slots :: int

datatype InterpretResult = INTERPRET_OK | INTERPRET_COMPILE_ERROR | INTERPRET_RUNTIME_ERROR

text \<open>
  The global \<open>vm\<close>, the heap and the outside world. \<open>stack\<close> is the memory the pointers
  \<open>stackTop\<close> and \<open>slots\<close> point into, indexed by integers relative to the start of the
  array \<open>vm.stack\<close>: the cells \<open>0 .. STACK_MAX - 1\<close> are the array, and the C code never
  checks an index against these bounds. \<open>frames\<close> is the array \<open>vm.frames\<close>. The
  interned strings are modelled by the list \<open>interned\<close> (the table \<open>vm.strings\<close> is only
  used in object.c, which is not among the sources). \<open>printed\<close> are the values printed
  to stdout, \<open>err_out\<close> is the text written to stderr, \<open>stdin_lines\<close> are the lines
  \<open>fgets\<close> will read and \<open>cpu_seconds\<close> is what \<open>clock() / CLOCKS_PER_SEC\<close> yields.
\<close>

record 'd VM =
  frames :: "nat \<Rightarrow> CallFrame"
  frameCount :: int
  stack :: "int \<Rightarrow> 'd Value"
  stackTop :: int
  globals :: "'d Table"
  openUpvalues :: "nat option"
  functionObjs :: "'d ObjFunction list"
  closureObjs :: "ObjClosure list"
  upvalueObjs :: "'d ObjUpvalue list"
  interned :: "ObjString list"
  printed :: "'d Value list"
  err_out :: string
  stdin_lines :: "string list"
  cpu_seconds :: 'd

text \<open>
  The arithmetic of C's \<open>double\<close>, a parameter of the machine: the operators the
  interpreter applies, the casts between \<open>double\<close> and \<open>int\<close> (the cast to \<open>int\<close> has no
  result for a value out of range) and \<open>strtod\<close>.
\<close>

record 'd Double =
  d_add :: "'d \<Rightarrow> 'd \<Rightarrow> 'd"
  d_sub :: "'d \<Rightarrow> 'd \<Rightarrow> 'd"
  d_mul :: "'d \<Rightarrow> 'd \<Rightarrow> 'd"
  d_div :: "'d \<Rightarrow> 'd \<Rightarrow> 'd"
  d_neg :: "'d \<Rightarrow> 'd"
  d_less :: "'d \<Rightarrow> 'd \<Rightarrow> bool"
  d_greater :: "'d \<Rightarrow> 'd \<Rightarrow> bool"
  d_equal :: "'d \<Rightarrow> 'd \<Rightarrow> bool"
  d_to_int :: "'d \<Rightarrow> int option"
  d_of_int :: "int \<Rightarrow> 'd"
  d_strtod :: "string \<Rightarrow> 'd"

subsection \<open>Stack, errors and calls\<close>

definition resetStack :: "'d VM \<Rightarrow> 'd VM" where
  "resetStack vm = vm\<lparr>stackTop := 0, frameCount := 0, openUpvalues := None\<rparr>"

definition push :: "'d Value \<Rightarrow> 'd VM \<Rightarrow> 'd VM" where
  "push v vm = vm\<lparr>stack := (stack vm)(stackTop vm := v), stackTop := stackTop vm + 1\<rparr>"

definition pop :: "'d VM \<Rightarrow> 'd Value \<times> 'd VM" where
  "pop vm = (stack vm (stackTop vm - 1), vm\<lparr>stackTop := stackTop vm - 1\<rparr>)"

definition peek :: "int \<Rightarrow> 'd VM \<Rightarrow> 'd Value" where
  "peek distance vm = stack vm (stackTop vm - 1 - distance)"

text \<open>
  The function a frame executes, through \<open>frame->closure->function\<close>; there is none when
  a pointer does not point to an allocated object.
\<close>

definition frame_function :: "'d VM \<Rightarrow> CallFrame \<Rightarrow> 'd ObjFunction option" where
  "frame_function vm fr =
     (if closure fr < length (closureObjs vm) then
        (let f = closure_function (closureObjs vm ! closure fr) in
         if f < length (functionObjs vm) then Some (functionObjs vm ! f) else None)
      else None)"

text \<open>
  The stack trace of \<open>runtimeError\<close>, for the frames with the given indices: the line of
  the instruction before \<open>ip\<close> and the name of the function, or \<open>script\<close>.
\<close>

fun stack_trace :: "'d VM \<Rightarrow> nat list \<Rightarrow> string option" where
  "stack_trace vm [] = Some []"
| "stack_trace vm (i # is) =
     (case frame_function vm (frames vm i) of
        None \<Rightarrow> None
      | Some f \<Rightarrow>
          (let instruction = ip (frames vm i) - 1 in
           if 0 \<le> instruction \<and> instruction < int (length (lines (chunk f))) then
             (case stack_trace vm is of
                None \<Rightarrow> None
              | Some rest \<Rightarrow>
                  Some (''[line '' @ show_int (lines (chunk f) ! nat instruction) @ ''] in ''
                        @ (case name f of
                             None \<Rightarrow> ''script'' @ [CHR 0x0A]
                           | Some n \<Rightarrow> chars n @ ''()'' @ [CHR 0x0A])
                        @ rest))
           else None))"

text \<open>
  \<open>runtimeError\<close>, with the formatted message as its argument: the message and a newline,
  the trace from the innermost frame outwards, then \<open>resetStack\<close>.
\<close>

definition runtimeError :: "string \<Rightarrow> 'd VM \<Rightarrow> 'd VM option" where
  "runtimeError message vm =
     (case stack_trace vm (rev [0..<nat (frameCount vm)]) of
        None \<Rightarrow> None
      | Some trace \<Rightarrow>
          Some (resetStack (vm\<lparr>err_out := err_out vm @ message @ [CHR 0x0A] @ trace\<rparr>)))"

text \<open>\<open>call\<close>: the returned flag and the state; no result when \<open>closure\<close> is no object.\<close>

definition call :: "nat \<Rightarrow> int \<Rightarrow> 'd VM \<Rightarrow> (bool \<times> 'd VM) option" where
  "call c argCount vm =
     (case frame_function vm \<lparr>closure = c, ip = 0, slots = 0\<rparr> of
        None \<Rightarrow> None
      | Some f \<Rightarrow>
          if argCount \<noteq> arity f then
            map_option (Pair False)
              (runtimeError (''Expected '' @ show_int (arity f) @ '' arguments but got ''
                             @ show_int argCount @ ''.'') vm)
          else if frameCount vm = FRAMES_MAX then
            map_option (Pair False) (runtimeError ''Stack overflow.'' vm)
          else if frameCount vm < 0 then None
          else
            Some (True,
              vm\<lparr>frames := (frames vm)(nat (frameCount vm) :=
                       \<lparr>closure = c, ip = 0, slots = stackTop vm - argCount - 1\<rparr>),
                 frameCount := frameCount vm + 1\<rparr>))"

text \<open>
  Modelled from the spec: \<open>copyString\<close> of object.c for the machine, as for the compiler:
  the interned string of the given contents, allocated when there is none.
\<close>

definition vm_copyString :: "string \<Rightarrow> 'd VM \<Rightarrow> ObjString \<times> 'd VM" where
  "vm_copyString s vm =
     (let (o', ss) = copyString s (interned vm) in (o', vm\<lparr>interned := ss\<rparr>))"

text \<open>\<open>AS_CSTRING\<close>: the characters of a string value; no result for any other value.\<close>

fun AS_CSTRING :: "'d Value \<Rightarrow> string option" where
  "AS_CSTRING (OBJ_VAL (OBJ_STRING s)) = Some (chars s)"
| "AS_CSTRING _ = None"

text \<open>
  The native functions. \<open>args\<close> is the pointer to the first argument, an index into the
  stack. \<open>inputNative\<close> prints its first argument (the prompt is not part of the model's
  output) and reads a line of at most 2047 characters; \<open>numNative\<close> applies \<open>strtod\<close>.
  Neither looks at \<open>argCount\<close>.
\<close>

fun native :: "'d Double \<Rightarrow> NativeFn \<Rightarrow> int \<Rightarrow> int \<Rightarrow> 'd VM \<Rightarrow> ('d Value \<times> 'd VM) option" where
  "native D clockNative argCount args vm = Some (NUMBER_VAL (cpu_seconds vm), vm)"
| "native D inputNative argCount args vm =
     (case AS_CSTRING (stack vm args) of
        None \<Rightarrow> None
      | Some prompt \<Rightarrow>
          (case stdin_lines vm of
             [] \<Rightarrow> None
           | l # ls \<Rightarrow>
               (let (str, vm1) = vm_copyString (take 2047 l) (vm\<lparr>stdin_lines := ls\<rparr>)
                in Some (OBJ_VAL (OBJ_STRING str), vm1))))"
| "native D numNative argCount args vm =
     (case AS_CSTRING (stack vm args) of
        None \<Rightarrow> None
      | Some s \<Rightarrow> Some (NUMBER_VAL (d_strtod D s), vm))"

definition callValue :: "'d Double \<Rightarrow> 'd Value \<Rightarrow> int \<Rightarrow> 'd VM \<Rightarrow> (bool \<times> 'd VM) option" where
  "callValue D callee argCount vm =
     (case callee of
        OBJ_VAL (OBJ_CLOSURE c) \<Rightarrow> call c argCount vm
      | OBJ_VAL (OBJ_NATIVE f) \<Rightarrow>
          (case native D f argCount (stackTop vm - argCount) vm of
             None \<Rightarrow> None
           | Some (result, vm1) \<Rightarrow>
               Some (True, push result (vm1\<lparr>stackTop := stackTop vm1 - (argCount + 1)\<rparr>)))
      | _ \<Rightarrow> map_option (Pair False) (runtimeError ''Can only call functions and classes.'' vm))"

subsection \<open>Upvalues\<close>

text \<open>
  The comparison of a \<open>location\<close> with a pointer into the stack. It is a comparison of
  stack addresses for an open upvalue; for a closed one the two pointers point into
  different objects and the comparison has no defined result (in \<open>closeUpvalues\<close> as
  well).
\<close>

fun location_greater :: "Location \<Rightarrow> int \<Rightarrow> bool option" where
  "location_greater (StackSlot i) local = Some (i > local)"
| "location_greater ClosedSlot local = None"

text \<open>
  The \<open>while\<close> loop of \<open>captureUpvalue\<close> over the heap \<open>h\<close> of upvalues: it yields the
  final \<open>prevUpvalue\<close> and \<open>upvalue\<close>. It is a partial function: \<open>None\<close> means that the
  loop yields no result.
\<close>

partial_function (option) captureUpvalue_loop ::
  "'d ObjUpvalue list \<Rightarrow> int \<Rightarrow> nat option \<Rightarrow> nat option \<Rightarrow> (nat option \<times> nat option) option"
where
  "captureUpvalue_loop h local prevUpvalue upvalue =
     (case upvalue of
        None \<Rightarrow> Some (prevUpvalue, upvalue)
      | Some u \<Rightarrow>
          if u < length h then
            (case location_greater (location (h ! u)) local of
               None \<Rightarrow> None
             | Some gt \<Rightarrow>
                 if gt then captureUpvalue_loop h local upvalue (next_upvalue (h ! u))
                 else Some (prevUpvalue, upvalue))
          else None)"

declare captureUpvalue_loop.simps [code]

text \<open>
  Modelled from the spec: \<open>newUpvalue\<close> of object.c, a fresh open upvalue for the slot with
  \<open>closed\<close> nil and no successor, allocated at the next free address.
\<close>

definition newUpvalue :: "int \<Rightarrow> 'd VM \<Rightarrow> nat \<times> 'd VM" where
  "newUpvalue slot vm =
     (length (upvalueObjs vm),
      vm\<lparr>upvalueObjs := upvalueObjs vm
             @ [\<lparr>location = StackSlot slot, closed = NIL_VAL, next_upvalue = None\<rparr>]\<rparr>)"

text \<open>The second half of \<open>captureUpvalue\<close>: the new node is linked in before \<open>upvalue\<close>.\<close>

definition captureUpvalue_insert ::
  "int \<Rightarrow> nat option \<Rightarrow> nat option \<Rightarrow> 'd VM \<Rightarrow> nat \<times> 'd VM" where
  "captureUpvalue_insert local prevUpvalue upvalue vm =
     (let (createdUpvalue, vm1) = newUpvalue local vm;
          h1 = (upvalueObjs vm1)
                 [createdUpvalue := (upvalueObjs vm1 ! createdUpvalue)\<lparr>next_upvalue := upvalue\<rparr>]
      in case prevUpvalue of
           None \<Rightarrow>
             (createdUpvalue, vm1\<lparr>upvalueObjs := h1, openUpvalues := Some createdUpvalue\<rparr>)
         | Some pr \<Rightarrow>
             (createdUpvalue,
              vm1\<lparr>upvalueObjs := h1[pr := (h1 ! pr)\<lparr>next_upvalue := Some createdUpvalue\<rparr>]\<rparr>))"

definition captureUpvalue :: "int \<Rightarrow> 'd VM \<Rightarrow> (nat \<times> 'd VM) option" where
  "captureUpvalue local vm =
     (case captureUpvalue_loop (upvalueObjs vm) local None (openUpvalues vm) of
        None \<Rightarrow> None
      | Some (prevUpvalue, upvalue) \<Rightarrow>
          (case upvalue of
             None \<Rightarrow> Some (captureUpvalue_insert local prevUpvalue upvalue vm)
           | Some u \<Rightarrow>
               if location (upvalueObjs vm ! u) = StackSlot local then Some (u, vm)
               else Some (captureUpvalue_insert local prevUpvalue upvalue vm)))"

text \<open>
  \<open>closeUpvalues\<close>: while the head of the list is at or above \<open>last\<close> (here \<open>lastp\<close>), its
  value is copied
  from the stack into \<open>closed\<close>, its \<open>location\<close> is pointed at \<open>closed\<close> and it is taken off
  the list.
\<close>

partial_function (option) closeUpvalues :: "int \<Rightarrow> 'd VM \<Rightarrow> 'd VM option" where
  "closeUpvalues lastp vm =
     (case openUpvalues vm of
        None \<Rightarrow> Some vm
      | Some u \<Rightarrow>
          if u < length (upvalueObjs vm) then
            (case location (upvalueObjs vm ! u) of
               ClosedSlot \<Rightarrow> None
             | StackSlot i \<Rightarrow>
                 if i \<ge> lastp then
                   closeUpvalues lastp
                     (vm\<lparr>upvalueObjs := (upvalueObjs vm)
                            [u := (upvalueObjs vm ! u)\<lparr>closed := stack vm i,
                                                       location := ClosedSlot\<rparr>],
                         openUpvalues := next_upvalue (upvalueObjs vm ! u)\<rparr>)
                 else Some vm)
          else None)"

declare closeUpvalues.simps [code]

text \<open>Reading and writing through the \<open>location\<close> of the upvalue at address \<open>u\<close>.\<close>

definition read_upvalue :: "nat \<Rightarrow> 'd VM \<Rightarrow> 'd Value option" where
  "read_upvalue u vm =
     (if u < length (upvalueObjs vm) then
        (case location (upvalueObjs vm ! u) of
           StackSlot i \<Rightarrow> Some (stack vm i)
         | ClosedSlot \<Rightarrow> Some (closed (upvalueObjs vm ! u)))
      else None)"

definition write_upvalue :: "nat \<Rightarrow> 'd Value \<Rightarrow> 'd VM \<Rightarrow> 'd VM option" where
  "write_upvalue u v vm =
     (if u < length (upvalueObjs vm) then
        (case location (upvalueObjs vm ! u) of
           StackSlot i \<Rightarrow> Some (vm\<lparr>stack := (stack vm)(i := v)\<rparr>)
         | ClosedSlot \<Rightarrow>
             Some (vm\<lparr>upvalueObjs := (upvalueObjs vm)[u := (upvalueObjs vm ! u)\<lparr>closed := v\<rparr>]\<rparr>))
      else None)"

subsection \<open>The interpreter loop\<close>

definition isFalsey :: "'d Value \<Rightarrow> bool" where
  "isFalsey v = (IS_NIL v \<or> (case v of BOOL_VAL b \<Rightarrow> \<not> b | _ \<Rightarrow> False))"

text \<open>
  Modelled from the spec: \<open>valuesEqual\<close> of value.c, which is not among the sources. Nil
  equals nil, booleans are compared by value, numbers by the equality of doubles, objects
  by their pointers; values of different types are different.
\<close>

fun valuesEqual :: "'d Double \<Rightarrow> 'd Value \<Rightarrow> 'd Value \<Rightarrow> bool" where
  "valuesEqual D NIL_VAL NIL_VAL = True"
| "valuesEqual D (BOOL_VAL a) (BOOL_VAL b) = (a = b)"
| "valuesEqual D (NUMBER_VAL a) (NUMBER_VAL b) = d_equal D a b"
| "valuesEqual D (OBJ_VAL (OBJ_STRING a)) (OBJ_VAL (OBJ_STRING b)) = (str_addr a = str_addr b)"
| "valuesEqual D (OBJ_VAL (OBJ_FUNCTION a)) (OBJ_VAL (OBJ_FUNCTION b)) = (a = b)"
| "valuesEqual D (OBJ_VAL (OBJ_NATIVE a)) (OBJ_VAL (OBJ_NATIVE b)) = (a = b)"
| "valuesEqual D (OBJ_VAL (OBJ_CLOSURE a)) (OBJ_VAL (OBJ_CLOSURE b)) = (a = b)"
| "valuesEqual D (OBJ_VAL (OBJ_UPVALUE a)) (OBJ_VAL (OBJ_UPVALUE b)) = (a = b)"
| "valuesEqual D _ _ = False"

text \<open>
  \<open>concatenate\<close>. Modelled from the spec: \<open>takeString\<close> of object.c yields the interned
  string of the characters, as \<open>copyString\<close> does.
\<close>

definition concatenate :: "'d VM \<Rightarrow> 'd VM option" where
  "concatenate vm =
     (let (bv, vm1) = pop vm; (av, vm2) = pop vm1 in
      case (AS_CSTRING av, AS_CSTRING bv) of
        (Some a, Some b) \<Rightarrow>
          (let (result, vm3) = vm_copyString (a @ b) vm2
           in Some (push (OBJ_VAL (OBJ_STRING result)) vm3))
      | _ \<Rightarrow> None)"

text \<open>
  What an instruction leaves behind: the loop goes on, or \<open>run\<close> returns a result.
\<close>

datatype 'd Outcome = Continue "'d VM" | Return InterpretResult "'d VM"

definition runtime_error :: "string \<Rightarrow> 'd VM \<Rightarrow> 'd Outcome option" where
  "runtime_error message vm =
     map_option (Return INTERPRET_RUNTIME_ERROR) (runtimeError message vm)"

text \<open>The macro \<open>BINARY_OP\<close>, with \<open>valueType (a op b)\<close> as the function \<open>f\<close>.\<close>

definition BINARY_OP :: "('d \<Rightarrow> 'd \<Rightarrow> 'd Value) \<Rightarrow> 'd VM \<Rightarrow> 'd Outcome option" where
  "BINARY_OP f vm =
     (if \<not> IS_NUMBER (peek 0 vm) \<or> \<not> IS_NUMBER (peek 1 vm)
      then runtime_error ''Operands must be numbers.'' vm
      else
        (let (bv, vm1) = pop vm; (av, vm2) = pop vm1 in
         case (av, bv) of
           (NUMBER_VAL a, NUMBER_VAL b) \<Rightarrow> Some (Continue (push (f a b) vm2))
         | _ \<Rightarrow> None))"

text \<open>C's division of \<open>int\<close>s truncates towards zero; it is undefined for a divisor 0.\<close>

definition c_int_div :: "int \<Rightarrow> int \<Rightarrow> int option" where
  "c_int_div a b = (if b = 0 then None else Some (sgn a * sgn b * (\<bar>a\<bar> div \<bar>b\<bar>)))"

definition modulus :: "'d Double \<Rightarrow> 'd VM \<Rightarrow> 'd Outcome option" where
  "modulus D vm =
     (if \<not> IS_NUMBER (peek 0 vm) \<or> \<not> IS_NUMBER (peek 1 vm)
      then runtime_error ''Operands must be numbers.'' vm
      else
        (let (bv, vm1) = pop vm; (av, vm2) = pop vm1 in
         case (av, bv) of
           (NUMBER_VAL a, NUMBER_VAL b) \<Rightarrow>
             (case d_to_int D (d_div D a b) of
                None \<Rightarrow> None
              | Some q \<Rightarrow>
                  Some (Continue
                    (push (NUMBER_VAL (d_sub D a (d_mul D (d_of_int D q) b))) vm2)))
         | _ \<Rightarrow> None))"

definition intDivison :: "'d Double \<Rightarrow> 'd VM \<Rightarrow> 'd Outcome option" where
  "intDivison D vm =
     (if \<not> IS_NUMBER (peek 0 vm) \<or> \<not> IS_NUMBER (peek 1 vm)
      then runtime_error ''Operands must be numbers.'' vm
      else
        (let (bv, vm1) = pop vm; (av, vm2) = pop vm1 in
         case (av, bv) of
           (NUMBER_VAL a, NUMBER_VAL b) \<Rightarrow>
             (case (d_to_int D a, d_to_int D b) of
                (Some x, Some y) \<Rightarrow>
                  (case c_int_div x y of
                     None \<Rightarrow> None
                   | Some q \<Rightarrow> Some (Continue (push (NUMBER_VAL (d_of_int D q)) vm2)))
              | _ \<Rightarrow> None)
         | _ \<Rightarrow> None))"

text \<open>
  The frame \<open>run\<close> works on, \<open>vm.frames[vm.frameCount - 1]\<close>, and the macros that read
  from its chunk. Reading outside the code or the constants of the chunk has no result.
\<close>

definition frame_index :: "'d VM \<Rightarrow> nat" where
  "frame_index vm = nat (frameCount vm - 1)"

definition current_frame :: "'d VM \<Rightarrow> CallFrame" where
  "current_frame vm = frames vm (frame_index vm)"

definition set_ip :: "int \<Rightarrow> 'd VM \<Rightarrow> 'd VM" where
  "set_ip i vm =
     vm\<lparr>frames := (frames vm)(frame_index vm := (current_frame vm)\<lparr>ip := i\<rparr>)\<rparr>"

definition READ_BYTE :: "'d VM \<Rightarrow> (8 word \<times> 'd VM) option" where
  "READ_BYTE vm =
     (if frameCount vm \<le> 0 then None
      else
        (case frame_function vm (current_frame vm) of
           None \<Rightarrow> None
         | Some f \<Rightarrow>
             (let i = ip (current_frame vm) in
              if 0 \<le> i \<and> i < int (length (code (chunk f)))
              then Some (code (chunk f) ! nat i, set_ip (i + 1) vm)
              else None)))"

definition READ_SHORT :: "'d VM \<Rightarrow> (16 word \<times> 'd VM) option" where
  "READ_SHORT vm =
     do {
       (hi, vm1) \<leftarrow> READ_BYTE vm;
       (lo, vm2) \<leftarrow> READ_BYTE vm1;
       Some (or (push_bit 8 (ucast hi)) (ucast lo), vm2)
     }"

definition READ_CONSTANT :: "'d VM \<Rightarrow> ('d Value \<times> 'd VM) option" where
  "READ_CONSTANT vm =
     do {
       (b, vm1) \<leftarrow> READ_BYTE vm;
       f \<leftarrow> frame_function vm (current_frame vm);
       if unat b < length (constants (chunk f))
       then Some (constants (chunk f) ! unat b, vm1)
       else None
     }"

definition READ_STRING :: "'d VM \<Rightarrow> (ObjString \<times> 'd VM) option" where
  "READ_STRING vm =
     do {
       (v, vm1) \<leftarrow> READ_CONSTANT vm;
       case v of OBJ_VAL (OBJ_STRING s) \<Rightarrow> Some (s, vm1) | _ \<Rightarrow> None
     }"

text \<open>The pointer \<open>frame->closure->upvalues[slot]\<close>.\<close>

definition frame_upvalue :: "'d VM \<Rightarrow> CallFrame \<Rightarrow> nat \<Rightarrow> nat option" where
  "frame_upvalue vm fr slot =
     (if closure fr < length (closureObjs vm) then
        (let ups = upvalues (closureObjs vm ! closure fr) in
         if slot < length ups then ups ! slot else None)
      else None)"

text \<open>
  Modelled from the spec: \<open>newClosure\<close> of object.c, a closure for the function at address
  \<open>f\<close> with as many upvalue pointers as the function has upvalues, all NULL.
\<close>

definition newClosure :: "nat \<Rightarrow> 'd VM \<Rightarrow> (nat \<times> 'd VM) option" where
  "newClosure f vm =
     (if f < length (functionObjs vm) then
        (let n = upvalueCount (functionObjs vm ! f) in
         Some (length (closureObjs vm),
               vm\<lparr>closureObjs := closureObjs vm
                      @ [\<lparr>closure_function = f, upvalues = replicate (nat n) None,
                          closure_upvalueCount = n\<rparr>]\<rparr>))
      else None)"

text \<open>
  The loop of \<open>OP_CLOSURE\<close> over the upvalues \<open>i\<close> of the new closure \<open>c\<close>; \<open>fr\<close> is the
  frame of the enclosing function.
\<close>

fun closure_loop :: "nat \<Rightarrow> nat list \<Rightarrow> 'd VM \<Rightarrow> 'd VM option" where
  "closure_loop c [] vm = Some vm"
| "closure_loop c (i # is) vm =
     do {
       (isLocal, vm1) \<leftarrow> READ_BYTE vm;
       (index, vm2) \<leftarrow> READ_BYTE vm1;
       (u, vm3) \<leftarrow>
         (if isLocal \<noteq> 0
          then map_option (apfst Some) (captureUpvalue (slots (current_frame vm2) + uint index) vm2)
          else if closure (current_frame vm2) < length (closureObjs vm2)
                  \<and> unat index < length (upvalues (closureObjs vm2 ! closure (current_frame vm2)))
          then Some (upvalues (closureObjs vm2 ! closure (current_frame vm2)) ! unat index, vm2)
          else None);
       closure_loop c is
         (vm3\<lparr>closureObjs := (closureObjs vm3)
                 [c := (closureObjs vm3 ! c)
                         \<lparr>upvalues := (upvalues (closureObjs vm3 ! c))[i := u]\<rparr>]\<rparr>)
     }"

text \<open>The cases of the \<open>switch\<close> of \<open>run\<close>, after the opcode has been read.\<close>

fun exec :: "'d Double \<Rightarrow> OpCode \<Rightarrow> 'd VM \<Rightarrow> 'd Outcome option" where
  "exec D OP_CONSTANT vm =
     do { (constant, vm1) \<leftarrow> READ_CONSTANT vm; Some (Continue (push constant vm1)) }"
| "exec D OP_NIL vm = Some (Continue (push NIL_VAL vm))"
| "exec D OP_TRUE vm = Some (Continue (push (BOOL_VAL True) vm))"
| "exec D OP_FALSE vm = Some (Continue (push (BOOL_VAL False) vm))"
| "exec D OP_POP vm = Some (Continue (snd (pop vm)))"
| "exec D OP_GET_LOCAL vm =
     do {
       (slot, vm1) \<leftarrow> READ_BYTE vm;
       Some (Continue (push (stack vm1 (slots (current_frame vm1) + uint slot)) vm1))
     }"
| "exec D OP_SET_LOCAL vm =
     do {
       (slot, vm1) \<leftarrow> READ_BYTE vm;
       Some (Continue
         (vm1\<lparr>stack := (stack vm1)(slots (current_frame vm1) + uint slot := peek 0 vm1)\<rparr>))
     }"
| "exec D OP_GET_GLOBAL vm =
     do {
       (name, vm1) \<leftarrow> READ_STRING vm;
       r \<leftarrow> tableGet (globals vm1) name;
       case r of
         None \<Rightarrow>
           runtime_error (''Undefined variable '' @ [CHR 0x27] @ chars name @ [CHR 0x27] @ ''.'') vm1
       | Some v \<Rightarrow> Some (Continue (push v vm1))
     }"
| "exec D OP_DEFINE_GLOBAL vm =
     do {
       (name, vm1) \<leftarrow> READ_STRING vm;
       (isNew, t) \<leftarrow> tableSet (globals vm1) name (peek 0 vm1);
       Some (Continue (snd (pop (vm1\<lparr>globals := t\<rparr>))))
     }"
| "exec D OP_SET_GLOBAL vm =
     do {
       (name, vm1) \<leftarrow> READ_STRING vm;
       (isNew, t) \<leftarrow> tableSet (globals vm1) name (peek 0 vm1);
       if isNew then
         do {
           (deleted, t') \<leftarrow> tableDelete t name;
           runtime_error (''Undefined variable '' @ [CHR 0x27] @ chars name @ [CHR 0x27] @ ''.'')
             (vm1\<lparr>globals := t'\<rparr>)
         }
       else Some (Continue (vm1\<lparr>globals := t\<rparr>))
     }"
| "exec D OP_GET_UPVALUE vm =
     do {
       (slot, vm1) \<leftarrow> READ_BYTE vm;
       u \<leftarrow> frame_upvalue vm1 (current_frame vm1) (unat slot);
       v \<leftarrow> read_upvalue u vm1;
       Some (Continue (push v vm1))
     }"
| "exec D OP_SET_UPVALUE vm =
     do {
       (slot, vm1) \<leftarrow> READ_BYTE vm;
       u \<leftarrow> frame_upvalue vm1 (current_frame vm1) (unat slot);
       vm2 \<leftarrow> write_upvalue u (peek 0 vm1) vm1;
       Some (Continue vm2)
     }"
| "exec D OP_EQUAL vm =
     (let (b, vm1) = pop vm; (a, vm2) = pop vm1
      in Some (Continue (push (BOOL_VAL (valuesEqual D a b)) vm2)))"
| "exec D OP_GREATER vm = BINARY_OP (\<lambda>a b. BOOL_VAL (d_greater D a b)) vm"
| "exec D OP_LESS vm = BINARY_OP (\<lambda>a b. BOOL_VAL (d_less D a b)) vm"
| "exec D OP_ADD vm =
     (if IS_STRING (peek 0 vm) \<and> IS_STRING (peek 1 vm)
      then map_option Continue (concatenate vm)
      else if IS_NUMBER (peek 0 vm) \<and> IS_NUMBER (peek 1 vm) then
        (let (bv, vm1) = pop vm; (av, vm2) = pop vm1 in
         case (av, bv) of
           (NUMBER_VAL a, NUMBER_VAL b) \<Rightarrow> Some (Continue (push (NUMBER_VAL (d_add D a b)) vm2))
         | _ \<Rightarrow> None)
      else runtime_error ''Operands must be two numbers of two strings.'' vm)"
| "exec D OP_SUBTRACT vm = BINARY_OP (\<lambda>a b. NUMBER_VAL (d_sub D a b)) vm"
| "exec D OP_MULTIPLY vm = BINARY_OP (\<lambda>a b. NUMBER_VAL (d_mul D a b)) vm"
| "exec D OP_DIVIDE vm = BINARY_OP (\<lambda>a b. NUMBER_VAL (d_div D a b)) vm"
| "exec D OP_INT_DIVIDE vm = intDivison D vm"
| "exec D OP_MODULUS vm = modulus D vm"
| "exec D OP_NOT vm =
     (let (v, vm1) = pop vm in Some (Continue (push (BOOL_VAL (isFalsey v)) vm1)))"
| "exec D OP_NEGATE vm =
     (if \<not> IS_NUMBER (peek 0 vm) then runtime_error ''Operand must be a number.'' vm
      else
        (let (v, vm1) = pop vm in
         case v of
           NUMBER_VAL a \<Rightarrow> Some (Continue (push (NUMBER_VAL (d_neg D a)) vm1))
         | _ \<Rightarrow> None))"
| "exec D OP_PRINT vm =
     (let (v, vm1) = pop vm in Some (Continue (vm1\<lparr>printed := printed vm1 @ [v]\<rparr>)))"
| "exec D OP_JUMP vm =
     do {
       (offset, vm1) \<leftarrow> READ_SHORT vm;
       Some (Continue (set_ip (ip (current_frame vm1) + uint offset) vm1))
     }"
| "exec D OP_JUMP_IF_FALSE vm =
     do {
       (offset, vm1) \<leftarrow> READ_SHORT vm;
       Some (Continue
         (if isFalsey (peek 0 vm1) then set_ip (ip (current_frame vm1) + uint offset) vm1
          else vm1))
     }"
| "exec D OP_LOOP vm =
     do {
       (offset, vm1) \<leftarrow> READ_SHORT vm;
       Some (Continue (set_ip (ip (current_frame vm1) - uint offset) vm1))
     }"
| "exec D OP_CALL vm =
     do {
       (b, vm1) \<leftarrow> READ_BYTE vm;
       let argCount = uint b;
       (ok, vm2) \<leftarrow> callValue D (peek argCount vm1) argCount vm1;
       if \<not> ok then Some (Return INTERPRET_RUNTIME_ERROR vm2) else Some (Continue vm2)
     }"
| "exec D OP_CLOSURE vm =
     do {
       (v, vm1) \<leftarrow> READ_CONSTANT vm;
       f \<leftarrow> (case v of OBJ_VAL (OBJ_FUNCTION f) \<Rightarrow> Some f | _ \<Rightarrow> None);
       (c, vm2) \<leftarrow> newClosure f vm1;
       let vm3 = push (OBJ_VAL (OBJ_CLOSURE c)) vm2;
       vm4 \<leftarrow> closure_loop c [0..<nat (closure_upvalueCount (closureObjs vm3 ! c))] vm3;
       Some (Continue vm4)
     }"
| "exec D OP_CLOSE_UPVALUE vm =
     do {
       vm1 \<leftarrow> closeUpvalues (stackTop vm - 1) vm;
       Some (Continue (snd (pop vm1)))
     }"
| "exec D OP_RETURN vm =
     (let fr = current_frame vm; (result, vm1) = pop vm in
      do {
        vm2 \<leftarrow> closeUpvalues (slots fr) vm1;
        let vm3 = vm2\<lparr>frameCount := frameCount vm2 - 1\<rparr>;
        if frameCount vm3 = 0 then Some (Return INTERPRET_OK (snd (pop vm3)))
        else Some (Continue (push result (vm3\<lparr>stackTop := slots fr\<rparr>)))
      })"

text \<open>
  One turn of the loop of \<open>run\<close>: an instruction byte is read and dispatched; for a byte
  that is no opcode no case of the \<open>switch\<close> applies and the loop goes on.
\<close>

definition step :: "'d Double \<Rightarrow> 'd VM \<Rightarrow> 'd Outcome option" where
  "step D vm =
     do {
       (instruction, vm1) \<leftarrow> READ_BYTE vm;
       case opcode_of instruction of
         None \<Rightarrow> Some (Continue vm1)
       | Some op \<Rightarrow> exec D op vm1
     }"

text \<open>\<open>run\<close>: the loop has no exit but the \<open>return\<close>s of its cases.\<close>

partial_function (option) run :: "'d Double \<Rightarrow> 'd VM \<Rightarrow> (InterpretResult \<times> 'd VM) option" where
  "run D vm =
     (case step D vm of
        None \<Rightarrow> None
      | Some (Continue vm1) \<Rightarrow> run D vm1
      | Some (Return r vm1) \<Rightarrow> Some (r, vm1))"

declare run.simps [code]


text \<open>
  \<open>initVM\<close>: the stack is reset, the tables are empty and the three natives are defined
  as globals (\<open>defineNative\<close>). \<open>VM0\<close> is the machine before: the heap is empty, the
  memory is zeroed and the outside world is given.
\<close>

definition defineNative :: "string \<Rightarrow> NativeFn \<Rightarrow> 'd VM \<Rightarrow> 'd VM option" where
  "defineNative nm f vm =
     (let (s, vm1) = vm_copyString nm vm;
          vm2 = push (OBJ_VAL (OBJ_STRING s)) vm1;
          vm3 = push (OBJ_VAL (OBJ_NATIVE f)) vm2
      in case stack vm3 0 of
           OBJ_VAL (OBJ_STRING k) \<Rightarrow>
             (case tableSet (globals vm3) k (stack vm3 1) of
                None \<Rightarrow> None
              | Some (isNew, t) \<Rightarrow> Some (snd (pop (snd (pop (vm3\<lparr>globals := t\<rparr>))))))
         | _ \<Rightarrow> None)"

definition VM0 :: "string list \<Rightarrow> 'd \<Rightarrow> 'd VM" where
  "VM0 input secs =
     \<lparr>frames = (\<lambda>i. \<lparr>closure = 0, ip = 0, slots = 0\<rparr>), frameCount = 0,
      stack = (\<lambda>i. NIL_VAL), stackTop = 0, globals = initTable, openUpvalues = None,
      functionObjs = [], closureObjs = [], upvalueObjs = [], interned = [],
      printed = [], err_out = [], stdin_lines = input, cpu_seconds = secs\<rparr>"

definition initVM :: "string list \<Rightarrow> 'd \<Rightarrow> 'd VM option" where
  "initVM input secs =
     do {
       let vm0 = resetStack (VM0 input secs);
       vm1 \<leftarrow> defineNative ''clock'' clockNative vm0;
       vm2 \<leftarrow> defineNative ''input'' inputNative vm1;
       defineNative ''num'' numNative vm2
     }"

text \<open>
  \<open>interpret\<close> (here \<open>interpret_function\<close>), from the result of \<open>compile\<close> on: \<open>fn\<close> is the
  address of the compiled
  function, or \<open>None\<close> for NULL. (The \<open>compile\<close> that \<open>interpret\<close> calls returns a function;
  the compiler among the sources is an earlier revision that fills a chunk.) The result
  of \<open>call\<close> is ignored, as in the source.
\<close>

definition interpret_function ::
  "'d Double \<Rightarrow> nat option \<Rightarrow> 'd VM \<Rightarrow> (InterpretResult \<times> 'd VM) option" where
  "interpret_function D fn vm =
     (case fn of
        None \<Rightarrow> Some (INTERPRET_COMPILE_ERROR, vm)
      | Some f \<Rightarrow>
          do {
            let vm1 = push (OBJ_VAL (OBJ_FUNCTION f)) vm;
            (c, vm2) \<leftarrow> newClosure f vm1;
            let vm3 = snd (pop vm2);
            let vm4 = push (OBJ_VAL (OBJ_CLOSURE c)) vm3;
            (ok, vm5) \<leftarrow> call c 0 vm4;
            run D vm5
          })"


subsection \<open>Compiled functions for concrete runs\<close>

text \<open>
  A function object as the full compiler builds it, with every byte on line 1, and its
  allocation at the next free address.
\<close>

definition mkFunction ::
  "int \<Rightarrow> ObjString option \<Rightarrow> 8 word list \<Rightarrow> 'd Value list \<Rightarrow> 'd ObjFunction" where
  "mkFunction n nm c ks =
     \<lparr>arity = n, upvalueCount = 0,
      chunk = \<lparr>code = c, lines = replicate (length c) 1, constants = ks\<rparr>, name = nm\<rparr>"

definition allocFunction :: "'d ObjFunction \<Rightarrow> 'd VM \<Rightarrow> nat \<times> 'd VM" where
  "allocFunction f vm = (length (functionObjs vm), vm\<lparr>functionObjs := functionObjs vm @ [f]\<rparr>)"

text \<open>
  For concrete runs: numbers are integers with exact arithmetic, a stand-in for the
  doubles that are integers (\<open>d_div\<close> is the integer quotient and right only where the
  division is exact), and \<open>strtod\<close> reads decimal digits.
\<close>

definition int_Double :: "int Double" where
  "int_Double =
     \<lparr>d_add = (+), d_sub = (-), d_mul = (*), d_div = (div), d_neg = uminus,
      d_less = (<), d_greater = (>), d_equal = (=), d_to_int = Some, d_of_int = id,
      d_strtod = decimal\<rparr>"


subsection \<open>Auxiliary definitions for the statements about the machine\<close>


text \<open>
  A table in which a probe for the key \<open>k\<close> finds neither \<open>k\<close> nor an empty entry: every
  entry is a tombstone or holds another key.
\<close>

definition no_slot_for :: "ObjString \<Rightarrow> 'd Entry list \<Rightarrow> bool" where
  "no_slot_for k es =
     list_all (\<lambda>e. case key e of None \<Rightarrow> \<not> IS_NIL (val e)
                     | Some k' \<Rightarrow> str_addr k' \<noteq> str_addr k) es"

text \<open>
  The list of open upvalues as a list: \<open>upvalue_seg h p us q\<close> says that in the heap \<open>h\<close>
  the \<open>next\<close> pointers lead from the pointer \<open>p\<close> through the upvalues at the addresses
  \<open>us\<close>, in this order, to the pointer \<open>q\<close>.
\<close>

fun upvalue_seg :: "'d ObjUpvalue list \<Rightarrow> nat option \<Rightarrow> nat list \<Rightarrow> nat option \<Rightarrow> bool" where
  "upvalue_seg h p [] q = (p = q)"
| "upvalue_seg h p (u # us) q =
     (p = Some u \<and> u < length h \<and> upvalue_seg h (next_upvalue (h ! u)) us q)"

text \<open>
  The invariant of the list of open upvalues: \<open>vm.openUpvalues\<close> is the head of a
  NULL-terminated list of the upvalues \<open>us\<close>, which are open and point at the stack slots
  \<open>ss\<close>, and the slots are strictly descending.
\<close>

definition open_list :: "'d VM \<Rightarrow> nat list \<Rightarrow> int list \<Rightarrow> bool" where
  "open_list vm us ss =
     (upvalue_seg (upvalueObjs vm) (openUpvalues vm) us None
      \<and> map (\<lambda>u. location (upvalueObjs vm ! u)) us = map StackSlot ss
      \<and> sorted_wrt (>) ss)"





section \<open>Theorems about the hash tables\<close>

text \<open>
  C1. A value stored under a key is to be found again after further \<open>tableSet\<close> calls
  with other keys, also across a growth of the table. The code does not do that: seven
  keys are stored in an empty table, the first with the value \<open>false\<close>; the seventh
  \<open>tableSet\<close> grows the table from 8 to 16 entries, and \<open>adjustCapacity\<close> copies the
  keys but not their values. Afterwards \<open>tableGet\<close> of the first key reports a hit and
  yields \<open>nil\<close>, not the value stored.
\<close>

theorem tableGet_after_growth_yields_nil:
  "(case tableSetAll initTable
           [(mkString 1 ''a'', BOOL_VAL False), (mkString 2 ''b'', BOOL_VAL True),
            (mkString 3 ''c'', BOOL_VAL True), (mkString 4 ''d'', BOOL_VAL True),
            (mkString 5 ''e'', BOOL_VAL True), (mkString 6 ''f'', BOOL_VAL True),
            (mkString 7 ''g'', BOOL_VAL True)] of
      None \<Rightarrow> None
    | Some t \<Rightarrow> tableGet t (mkString 1 ''a''))
   = Some (Some (NIL_VAL :: unit Value))"
  by code_simp


section \<open>Theorems about the compiler\<close>

subsection \<open>The parser returns\<close>

lemma fuel_mono_aux:
  "(\<forall>prec p r. parsePrecedence sd n prec p = Some r \<longrightarrow> parsePrecedence sd (Suc n) prec p = Some r) \<and>
   (\<forall>prec p r. infixLoop sd n prec p = Some r \<longrightarrow> infixLoop sd (Suc n) prec p = Some r) \<and>
   (\<forall>f p r. callParseFn sd n f p = Some r \<longrightarrow> callParseFn sd (Suc n) f p = Some r)"
proof (induction n)
  case 0
  have "callParseFn sd 0 f p = Some r \<Longrightarrow> callParseFn sd (Suc 0) f p = Some r" for f p r
    by (cases f) (auto simp: Let_def)
  then show ?case by simp
next
  case (Suc n)
  have PP: "parsePrecedence sd (Suc (Suc n)) prec p = Some r"
    if h: "parsePrecedence sd (Suc n) prec p = Some r" for prec p r
  proof (cases "prefix (getRule (ttype (previous (advance p))))")
    case None
    with h show ?thesis by (simp add: Let_def)
  next
    case (Some f)
    with h obtain r2 where r2: "callParseFn sd n f (advance p) = Some r2"
      and r: "infixLoop sd n prec r2 = Some r"
      by (auto simp add: Let_def simp del: infixLoop.simps callParseFn.simps split: option.splits)
    from Suc.IH r2 have r2': "callParseFn sd (Suc n) f (advance p) = Some r2" by blast
    from Suc.IH r have r': "infixLoop sd (Suc n) prec r2 = Some r" by blast
    show ?thesis
      by (subst parsePrecedence.simps) (simp add: Let_def Some r2' r' del: infixLoop.simps callParseFn.simps)
  qed
  have IL: "infixLoop sd (Suc (Suc n)) prec p = Some r"
    if h: "infixLoop sd (Suc n) prec p = Some r" for prec p r
  proof (cases "prec \<le> precedence (getRule (ttype (current p)))")
    case False
    with h show ?thesis by simp
  next
    case True
    with h obtain f r2 where f: "infix_rule (getRule (ttype (previous (advance p)))) = Some f"
      and r2: "callParseFn sd n f (advance p) = Some r2"
      and r: "infixLoop sd n prec r2 = Some r"
      by (subst (asm) infixLoop.simps)
         (auto simp add: Let_def simp del: infixLoop.simps callParseFn.simps split: option.splits)
    from Suc.IH r2 have r2': "callParseFn sd (Suc n) f (advance p) = Some r2" by blast
    from Suc.IH r have r': "infixLoop sd (Suc n) prec r2 = Some r" by blast
    show ?thesis
      by (subst infixLoop.simps) (simp add: Let_def True f r2' r' del: infixLoop.simps callParseFn.simps)
  qed
  have CF: "callParseFn sd (Suc (Suc n)) f p = Some r"
    if "callParseFn sd (Suc n) f p = Some r" for f p r
    using that PP
    by (cases f) (auto simp add: Let_def simp del: parsePrecedence.simps split: option.splits)
  from PP IL CF show ?case by blast
qed


lemma errorAt_fields [simp]:
  "current (errorAt t m p) = current p"
  "previous (errorAt t m p) = previous p"
  "pending (errorAt t m p) = pending p"
  "eofLine (errorAt t m p) = eofLine p"
  "compilingChunk (errorAt t m p) = compilingChunk p"
  "pool (errorAt t m p) = pool p"
  by (simp_all add: errorAt_def)

lemma emitByte_fields [simp]:
  "current (emitByte b p) = current p"
  "previous (emitByte b p) = previous p"
  "pending (emitByte b p) = pending p"
  "hadError (emitByte b p) = hadError p"
  "panicMode (emitByte b p) = panicMode p"
  "stderr (emitByte b p) = stderr p"
  "code (compilingChunk (emitByte b p)) = code (compilingChunk p) @ [b]"
  by (simp_all add: emitByte_def writeChunk_def)

lemma rem_errorAt [simp]: "rem_tokens (errorAt t m p) = rem_tokens p"
  by (simp add: rem_tokens_def)

lemma rem_error [simp]: "rem_tokens (error m p) = rem_tokens p"
  by (simp add: error_def)

lemma rem_errorAtCurrent [simp]: "rem_tokens (errorAtCurrent m p) = rem_tokens p"
  by (simp add: errorAtCurrent_def)

lemma rem_emitByte [simp]: "rem_tokens (emitByte b p) = rem_tokens p"
  by (simp add: rem_tokens_def)

lemma rem_emitBytes [simp]: "rem_tokens (emitBytes a b p) = rem_tokens p"
  by (simp add: emitBytes_def)

lemma rem_makeConstant [simp]: "rem_tokens (snd (makeConstant v p)) = rem_tokens p"
  by (simp add: makeConstant_def addConstant_def Let_def) (simp add: rem_tokens_def)

lemma rem_emitConstant [simp]: "rem_tokens (emitConstant v p) = rem_tokens p"
  using rem_makeConstant [of v p]
  by (cases "makeConstant v p") (simp add: emitConstant_def)

lemma rem_pool_update [simp]: "rem_tokens (p\<lparr>pool := ss\<rparr>) = rem_tokens p"
  by (simp add: rem_tokens_def)

lemma rem_identifierConstant [simp]: "rem_tokens (snd (identifierConstant t p)) = rem_tokens p"
  by (cases "copyString (lexeme t) (pool p)") (simp add: identifierConstant_def)

lemma rem_variable_fn [simp]: "rem_tokens (variable_fn p) = rem_tokens p"
  using rem_identifierConstant [of "previous p" p]
  by (cases "identifierConstant (previous p) p") (simp add: variable_fn_def namedVariable_def)

lemma rem_string_fn [simp]: "rem_tokens (string_fn p) = rem_tokens p"
  by (simp add: string_fn_def Let_def split: prod.splits)

lemma rem_number_fn [simp]: "rem_tokens (number_fn sd p) = rem_tokens p"
  by (simp add: number_fn_def)

lemma rem_literal_fn [simp]: "rem_tokens (literal_fn p) = rem_tokens p"
  by (simp add: literal_fn_def split: TokenType.splits)

lemma rem_unary_emit [simp]: "rem_tokens (unary_emit t p) = rem_tokens p"
  by (cases t) simp_all

lemma rem_binary_emit [simp]: "rem_tokens (binary_emit t p) = rem_tokens p"
  by (cases t) simp_all


lemma previous_advance_loop [simp]: "previous (advance_loop ts q) = previous q"
  by (induction ts arbitrary: q) (simp_all add: Let_def errorAtCurrent_def)

lemma previous_advance [simp]: "previous (advance p) = current p"
  by (simp add: advance_def)














lemma rem_defineVariable [simp]: "rem_tokens (defineVariable g p) = rem_tokens p"
  by (simp add: defineVariable_def)






lemma rem_panicMode_update [simp]: "rem_tokens (p\<lparr>panicMode := b\<rparr>) = rem_tokens p"
  by (simp add: rem_tokens_def)



subsection \<open>The end of \<open>compile\<close>\<close>


lemmas parser_defs =
  compile_def advance_def match_def check_def consume_def decleration_def statement_def
  expressionStatement_def printStatement_def expression_def variable_fn_def namedVariable_def
  number_fn_def emitConstant_def
  identifierConstant_def makeConstant_def addConstant_def emitBytes_def emitByte_def
  writeChunk_def endCompiler_def emitReturn_def rule_def tok_def initChunk_def
  Let_def split_beta error_def errorAt_def errorAtCurrent_def



subsection \<open>Binary operators\<close>

lemma n8: "8 \<le> n \<Longrightarrow> \<exists>m. n = Suc (Suc (Suc (Suc (Suc (Suc (Suc (Suc m)))))))"
  by (rule exI [of _ "n - 8"]) (simp add: eval_nat_numeral)

lemma binary_emit_fields [simp]:
  "current (binary_emit t p) = current p"
  "previous (binary_emit t p) = previous p"
  "pending (binary_emit t p) = pending p"
  "hadError (binary_emit t p) = hadError p"
  "panicMode (binary_emit t p) = panicMode p"
  "stderr (binary_emit t p) = stderr p"
  "pool (binary_emit t p) = pool p"
  "eofLine (binary_emit t p) = eofLine p"
  "constants (compilingChunk (binary_emit t p)) = constants (compilingChunk p)"
  by (cases t; simp add: emitBytes_def emitByte_def writeChunk_def)+

lemma binary_emit_code:
  "t \<in> set binary_operators \<Longrightarrow>
   code (compilingChunk (binary_emit t p))
     = code (compilingChunk p) @ map byte_of (binary_opcodes t)"
  by (auto simp add: binary_operators_def emitBytes_def emitByte_def writeChunk_def)

lemma binary_operator_rule:
  "t \<in> set binary_operators \<Longrightarrow>
   infix_rule (getRule t) = Some binary \<and> 1 \<le> precedence (getRule t)
   \<and> t \<noteq> TOKEN_ERROR \<and> t \<noteq> TOKEN_EOF \<and> t \<noteq> TOKEN_SEMICOLON"
  by (auto simp add: binary_operators_def rule_def)

text \<open>
  C9. The expression statement \<open>a o1 b o2 c;\<close> with identifiers \<open>a\<close>, \<open>b\<close>, \<open>c\<close> and binary
  operators \<open>o1\<close>, \<open>o2\<close>, compiled into an empty chunk: when \<open>o2\<close> does not bind tighter
  than \<open>o1\<close> (in particular when both have the same precedence) the code is that of
  \<open>(a o1 b) o2 c\<close>, because the right operand of \<open>o1\<close> is parsed one precedence level above
  \<open>o1\<close>; otherwise it is that of \<open>a o1 (b o2 c)\<close>. Each operator is compiled to the opcodes
  the spec lists for it, after its operands. Lexemes and lines of the tokens are
  arbitrary.
\<close>

theorem binary_operators_associate_left:
  assumes "o1 \<in> set binary_operators" and "o2 \<in> set binary_operators" and "8 \<le> n"
  shows "map_option (apsnd (code \<circ> compilingChunk))
     (compile sd n
        [\<lparr>ttype = TOKEN_IDENTIFIER, lexeme = a, line = la\<rparr>,
         \<lparr>ttype = o1, lexeme = s1, line = l1\<rparr>,
         \<lparr>ttype = TOKEN_IDENTIFIER, lexeme = b, line = lb\<rparr>,
         \<lparr>ttype = o2, lexeme = s2, line = l2\<rparr>,
         \<lparr>ttype = TOKEN_IDENTIFIER, lexeme = c, line = lc\<rparr>,
         \<lparr>ttype = TOKEN_SEMICOLON, lexeme = s3, line = l3\<rparr>] l initChunk p)
   = Some (True,
       (if precedence (getRule o2) \<le> precedence (getRule o1)
        then [byte_of OP_GET_GLOBAL, 0, byte_of OP_GET_GLOBAL, 1] @ map byte_of (binary_opcodes o1)
             @ [byte_of OP_GET_GLOBAL, 2] @ map byte_of (binary_opcodes o2)
        else [byte_of OP_GET_GLOBAL, 0, byte_of OP_GET_GLOBAL, 1, byte_of OP_GET_GLOBAL, 2]
             @ map byte_of (binary_opcodes o2) @ map byte_of (binary_opcodes o1))
       @ [byte_of OP_POP, byte_of OP_RETURN])"
proof -
  from n8 [OF \<open>8 \<le> n\<close>] obtain m where
    n: "n = Suc (Suc (Suc (Suc (Suc (Suc (Suc (Suc m)))))))" ..
  note r1 = binary_operator_rule [OF assms(1)] and r2 = binary_operator_rule [OF assms(2)]
  note c1 = binary_emit_code [OF assms(1)] and c2 = binary_emit_code [OF assms(2)]
  show ?thesis
  proof (cases "precedence (getRule o2) \<le> precedence (getRule o1)")
    case True
    with r1 r2 show ?thesis unfolding n
      by (simp add: parser_defs c1 c2)
  next
    case False
    with r1 r2 show ?thesis unfolding n
      by (simp add: parser_defs c1 c2)
  qed
qed


text \<open>A witness: the statement \<open>a - b - c;\<close> of the spec.\<close>

theorem binary_operators_associate_left_witness:
  "TOKEN_MINUS \<in> set binary_operators \<and> (8 :: nat) \<le> 8
   \<and> map_option (apsnd (code \<circ> compilingChunk))
        (compile decimal 8
           [\<lparr>ttype = TOKEN_IDENTIFIER, lexeme = ''a'', line = 1\<rparr>,
            \<lparr>ttype = TOKEN_MINUS, lexeme = ''-'', line = 1\<rparr>,
            \<lparr>ttype = TOKEN_IDENTIFIER, lexeme = ''b'', line = 1\<rparr>,
            \<lparr>ttype = TOKEN_MINUS, lexeme = ''-'', line = 1\<rparr>,
            \<lparr>ttype = TOKEN_IDENTIFIER, lexeme = ''c'', line = 1\<rparr>,
            \<lparr>ttype = TOKEN_SEMICOLON, lexeme = '';'', line = 1\<rparr>] 1 initChunk Parser0)
      = Some (True,
          [byte_of OP_GET_GLOBAL, 0, byte_of OP_GET_GLOBAL, 1, byte_of OP_SUBTRACT,
           byte_of OP_GET_GLOBAL, 2, byte_of OP_SUBTRACT, byte_of OP_POP, byte_of OP_RETURN])"
  using binary_operators_associate_left
          [of TOKEN_MINUS TOKEN_MINUS 8 decimal "''a''" 1 "''-''" 1 "''b''" 1 "''-''" 1 "''c''" 1
              "'';''" 1 1 Parser0]
  by (simp add: binary_operators_def rule_def)

subsection \<open>Identifiers\<close>






section \<open>Theorems about the virtual machine\<close>

subsection \<open>Addition\<close>

text \<open>
  C3. The program \<open>print "a" + 1;\<close>, compiled by the full compiler to
  \<open>OP_CONSTANT 0, OP_CONSTANT 1, OP_ADD, OP_PRINT, OP_NIL, OP_RETURN\<close> with the constants
  \<open>"a"\<close> and \<open>1\<close>, run in a fresh machine: the result is \<open>INTERPRET_RUNTIME_ERROR\<close>, nothing
  is printed, and the text on stderr is the message of the source, which reads
  \<open>numbers of two strings\<close>, followed by the stack trace.
\<close>

theorem OP_ADD_error_message:
  "do {
     vm0 \<leftarrow> initVM [] 0;
     let (a, vm1) = vm_copyString ''a'' vm0;
     let (f, vm2) = allocFunction (mkFunction 0 None
         [byte_of OP_CONSTANT, 0, byte_of OP_CONSTANT, 1, byte_of OP_ADD, byte_of OP_PRINT,
          byte_of OP_NIL, byte_of OP_RETURN] [OBJ_VAL (OBJ_STRING a), NUMBER_VAL 1]) vm1;
     (r, vm3) \<leftarrow> interpret_function int_Double (Some f) vm2;
     Some (r, err_out vm3, printed vm3)
   }
   = Some (INTERPRET_RUNTIME_ERROR,
           ''Operands must be two numbers of two strings.'' @ [CHR 0x0A]
           @ ''[line 1] in script'' @ [CHR 0x0A], [])"
  by code_simp

subsection \<open>Native calls\<close>

lemma native_fields:
  assumes "native D f n a vm = Some (r, vm1)"
  shows "stackTop vm1 = stackTop vm" and "stack vm1 = stack vm"
    and "frames vm1 = frames vm" and "frameCount vm1 = frameCount vm"
    and "err_out vm1 = err_out vm"
  using assms
  by (cases f; auto simp add: vm_copyString_def split_beta Let_def
        split: option.splits list.splits)+

text \<open>
  C10. A call of a native function with any argument count: \<open>callValue\<close> hands the count
  and the pointer to the first argument to the native and, when that returns, replaces
  the callee and the arguments by the result and returns true. Nothing is written to
  stderr and no frame is pushed, whatever the count: there is no arity check.
  \<open>clockNative\<close> returns for every count.
\<close>

theorem callValue_native_no_arity_check:
  "callValue D (OBJ_VAL (OBJ_NATIVE f)) argCount vm
     = (case native D f argCount (stackTop vm - argCount) vm of
          None \<Rightarrow> None
        | Some (result, vm1) \<Rightarrow>
            Some (True, vm1\<lparr>stack := (stack vm)(stackTop vm - argCount - 1 := result),
                           stackTop := stackTop vm - argCount\<rparr>))
   \<and> (\<forall>ok vm'. callValue D (OBJ_VAL (OBJ_NATIVE f)) argCount vm = Some (ok, vm') \<longrightarrow>
         ok \<and> err_out vm' = err_out vm \<and> frameCount vm' = frameCount vm
         \<and> frames vm' = frames vm \<and> stackTop vm' = stackTop vm - argCount)
   \<and> callValue D (OBJ_VAL (OBJ_NATIVE clockNative)) argCount vm
       = Some (True, vm\<lparr>stack := (stack vm)(stackTop vm - argCount - 1 := NUMBER_VAL (cpu_seconds vm)),
                        stackTop := stackTop vm - argCount\<rparr>)"
proof (intro conjI allI impI)
  show eq: "callValue D (OBJ_VAL (OBJ_NATIVE f)) argCount vm
     = (case native D f argCount (stackTop vm - argCount) vm of
          None \<Rightarrow> None
        | Some (result, vm1) \<Rightarrow>
            Some (True, vm1\<lparr>stack := (stack vm)(stackTop vm - argCount - 1 := result),
                           stackTop := stackTop vm - argCount\<rparr>))"
  proof (cases "native D f argCount (stackTop vm - argCount) vm")
    case None
    then show ?thesis by (simp add: callValue_def)
  next
    case (Some a)
    obtain result vm1 where a: "a = (result, vm1)" by (cases a)
    from native_fields [OF Some [unfolded a]] Some a show ?thesis
      by (simp add: callValue_def push_def algebra_simps)
  qed
  fix ok vm'
  assume c: "callValue D (OBJ_VAL (OBJ_NATIVE f)) argCount vm = Some (ok, vm')"
  then obtain result vm1 where n: "native D f argCount (stackTop vm - argCount) vm = Some (result, vm1)"
    and vm': "vm' = vm1\<lparr>stack := (stack vm)(stackTop vm - argCount - 1 := result),
                           stackTop := stackTop vm - argCount\<rparr>" and ok: "ok"
    unfolding eq by (auto split: option.splits)
  from ok show "ok" .
  from native_fields [OF n] vm' show "err_out vm' = err_out vm" "frameCount vm' = frameCount vm"
    "frames vm' = frames vm" "stackTop vm' = stackTop vm - argCount"
    by simp_all
next
  show "callValue D (OBJ_VAL (OBJ_NATIVE clockNative)) argCount vm
       = Some (True, vm\<lparr>stack := (stack vm)(stackTop vm - argCount - 1 := NUMBER_VAL (cpu_seconds vm)),
                        stackTop := stackTop vm - argCount\<rparr>)"
    by (simp add: callValue_def push_def algebra_simps)
qed


text \<open>A witness: \<open>clock\<close> called with two arguments, for no parameter.\<close>

theorem callValue_native_no_arity_check_witness:
  "callValue int_Double (OBJ_VAL (OBJ_NATIVE clockNative)) 2
     (push NIL_VAL (push NIL_VAL (push (OBJ_VAL (OBJ_NATIVE clockNative)) (VM0 [] 7))))
   = Some (True,
       (push NIL_VAL (push NIL_VAL (push (OBJ_VAL (OBJ_NATIVE clockNative)) (VM0 [] 7))))
         \<lparr>stack := (stack (push NIL_VAL (push NIL_VAL
                      (push (OBJ_VAL (OBJ_NATIVE clockNative)) (VM0 [] 7)))))
                    (0 := NUMBER_VAL 7),
          stackTop := 1\<rparr>)
   \<and> err_out ((push NIL_VAL (push NIL_VAL (push (OBJ_VAL (OBJ_NATIVE clockNative)) (VM0 [] (7::int)))))
         \<lparr>stack := (stack (push NIL_VAL (push NIL_VAL
                      (push (OBJ_VAL (OBJ_NATIVE clockNative)) (VM0 [] 7)))))
                    (0 := NUMBER_VAL 7),
          stackTop := 1\<rparr>) = []"
proof -
  let ?vm = "push NIL_VAL (push NIL_VAL (push (OBJ_VAL (OBJ_NATIVE clockNative)) (VM0 [] (7::int))))"
  note t = callValue_native_no_arity_check [of int_Double clockNative 2 ?vm]
  have top: "stackTop ?vm = 3" and secs: "cpu_seconds ?vm = 7" and err: "err_out ?vm = []"
    by (simp_all add: push_def VM0_def)
  from t have eq: "callValue int_Double (OBJ_VAL (OBJ_NATIVE clockNative)) 2 ?vm
      = Some (True, ?vm\<lparr>stack := (stack ?vm)(0 := NUMBER_VAL 7), stackTop := 1\<rparr>)"
    by (simp add: top secs)
  with t have "err_out (?vm\<lparr>stack := (stack ?vm)(0 := NUMBER_VAL 7), stackTop := 1\<rparr>) = err_out ?vm"
    by blast
  with eq err show ?thesis by simp
qed

subsection \<open>The limit on call frames\<close>







subsection \<open>The bounds on the stacks\<close>

lemma frameCount_push [simp]: "frameCount (push v vm) = frameCount vm"
  by (simp add: push_def)

lemma frameCount_pop [simp]: "frameCount (snd (pop vm)) = frameCount vm"
  by (simp add: pop_def)

lemma frameCount_set_ip [simp]: "frameCount (set_ip i vm) = frameCount vm"
  by (simp add: set_ip_def)







lemma frameCount_vm_copyString [simp]:
  "frameCount (snd (vm_copyString s vm)) = frameCount vm"
  by (simp add: vm_copyString_def split_beta)

















lemma opcode_of_byte_of [simp]: "opcode_of (byte_of op) = Some op"
  by (cases op) (simp_all add: opcode_of_def opcodes_def)



end
